theory Spec2Isabelle
  imports Complex_Main "HOL-Library.Multiset" "HOL-Library.Sublist"
begin

section \<open>Module constants of fc\_permute\_mnist.py\<close>

definition VALID_OPTIMS :: "string list" where
  "VALID_OPTIMS = [''SGD'', ''MOMENTUM'', ''ADAM'']"

definition VALID_ARCHS :: "string list" where
  "VALID_ARCHS = [''FC-S'', ''FC-B'']"

definition MODELS :: "string list" where
  "MODELS = [''VAN'', ''PI'', ''EWC'', ''MAS'', ''RWALK'', ''A-GEM'', ''S-GEM'', ''FTR_EXT'',
             ''MER'', ''ER-Reservoir'', ''ER-Ring'', ''ER-Hindsight-Anchors'']"

definition TOTAL_CLASSES :: nat where
  "TOTAL_CLASSES = 10"

definition INPUT_FEATURE_SIZE :: nat where
  "INPUT_FEATURE_SIZE = 784"

definition K_FOR_CROSS_VAL :: nat where
  "K_FOR_CROSS_VAL = 3"

definition NUM_TASKS :: nat where
  "NUM_TASKS = 23"

definition MER_S :: nat where
  "MER_S = 10"

text \<open>
  The module switches \<open>MULTI_TASK\<close>, \<open>COUNT_VIOLATIONS\<close>, \<open>TIME_MY_METHOD\<close> and
  \<open>MEASURE_PERF_ON_EPS_MEMORY\<close> are \<open>False\<close> in the source and no command-line option
  assigns them; the embedding follows the branches that are taken under these values.
  Counts read from the command line (\<open>--num-runs\<close>, \<open>--batch-size\<close>, \<open>--mem-size\<close>, ...)
  are natural numbers.
\<close>

section \<open>Data model\<close>

text \<open>
  A Python float: a finite value (an exact real), an infinity or NaN. The loss fetched
  from the session and the entries of the anchor buffer are such values.
\<close>

datatype npfloat = Fin real | PInf | NInf | NaN

text \<open>\<open>math.isnan\<close>\<close>

definition isnan :: "npfloat \<Rightarrow> bool" where
  "isnan x = (x = NaN)"

text \<open>Finite is what \<open>math.isfinite\<close> accepts: neither an infinity nor NaN.\<close>

fun isfinite :: "npfloat \<Rightarrow> bool" where
  "isfinite (Fin r) = True"
| "isfinite PInf = False"
| "isfinite NInf = False"
| "isfinite NaN = False"

type_synonym image = "real list"
type_synonym label = "real list"
type_synonym example = "image \<times> label"

record task_data =
  train_set :: "example list"
  test_set :: "example list"

record args =
  cross_validate_mode :: bool
  online_cross_val :: bool
  train_single_epoch :: bool
  arch :: string
  num_runs :: nat
  train_iters :: nat
  batch_size :: nat
  random_seed :: int
  optim :: string
  imp_method :: string
  fisher_update_after :: nat
  mem_size :: nat
  eps_mem_batch :: nat
  examples_per_task :: nat
  log_dir :: string

text \<open>The attributes of the \<open>Model\<close> object that \<open>train_task_sequence\<close> reads.\<close>

record model =
  model_imp_method :: string
  num_tasks :: nat
  model_fisher_update_after :: nat

datatype error =
    ValueError string
  | ZeroDivisionError
  | NameError string
  | SystemExit int

text \<open>
  What is fed to a \<open>sess.run\<close>: nothing, a batch for \<open>model.x\<close> and \<open>model.y_\<close>, a batch
  with a learning rate scaled by a factor (MER's last step), a batch together with
  \<open>model.anchor_points\<close>, or \<open>model.mer_beta\<close> alone.
\<close>

datatype feed =
    NoFeed
  | Feed "example list"
  | FeedScaled nat "example list"
  | FeedAnchors "example list" "npfloat list list"
  | FeedBeta

text \<open>
  Every call that leaves \<open>train_task_sequence\<close> or \<open>main\<close> (the session, the model
  object, the random generator, the helper modules) is logged, in program order.
\<close>

datatype event =
    RandomSeed int
  | ConstructPermuteMnist nat
  | GlobalVariablesInitializer
  | InitUpdates
  | Restore
  | AccuracyEval "example list"
  | SessRun "string list" feed
  | UpdateFifoBuffer string "example list" nat nat
  | UpdateReservior "example list" nat nat
  | UpdateAvgImageVectors "example list"
  | ErMemUpdateHindsight nat
  | ResetAvgImageVectors
  | TaskUpdates nat
  | ResetOptimizer
  | MakeDirs string
  | SnapshotExperimentMetaData
  | ResetDefaultGraph
  | SetRandomSeed int
  | BuildOptimizer string
  | BuildModel string nat string
  | SessionClose
  | CrossValidateDump
  | SnapshotExperimentEval

text \<open>
  The state of numpy's global generator is the stream of raw numbers it will still
  deliver; a draw takes the head.
\<close>

type_synonym rng = "nat \<Rightarrow> nat"

definition draw :: "rng \<Rightarrow> nat \<times> rng" where
  "draw g = (g 0, \<lambda>n. g (Suc n))"

text \<open>
  The collaborators that are outside the repository's orchestrator: the generator behind
  \<open>np.random.seed\<close>, the dataset constructor, the values the session returns (a function
  of everything that was run so far), the anchor synthesis and the file system.
\<close>

record env =
  np_seed :: "int \<Rightarrow> rng"
  construct_permute_mnist :: "nat \<Rightarrow> rng \<Rightarrow> task_data list \<times> rng"
  fetch_loss :: "event list \<Rightarrow> npfloat"
  fetch_accuracy :: "event list \<Rightarrow> real"
  er_mem_update_hindsight :: "event list \<Rightarrow> rng \<Rightarrow> (real list list \<times> label list) \<times> rng"
  path_exists :: "string \<Rightarrow> bool"

text \<open>
  The value appended to \<open>evals\<close> for a task: in single-epoch mode outside
  cross-validation the array of all snapshots of the task, otherwise one accuracy vector.
\<close>

datatype ftask_val = Curve "real list list" | Final "real list"

record state =
  rng :: rng
  trace :: "event list"
  episodic_images :: "nat \<Rightarrow> image"
  episodic_labels :: "nat \<Rightarrow> label"
  count_cls :: "nat \<Rightarrow> nat"
  episodic_filled_counter :: nat
  examples_seen_so_far :: nat
  anchor_images :: "nat \<Rightarrow> npfloat list"
  anchor_labels :: "nat \<Rightarrow> label"
  anchor_count_cls :: "nat \<Rightarrow> nat"
  loss :: "npfloat option"
  phi_hat_bound :: bool
  ftask :: "real list list"
  evals :: "ftask_val list"
  runs :: "ftask_val list list"

type_synonym outcome = "(error \<times> state) + state"

fun final :: "outcome \<Rightarrow> state" where
  "final (Inl (e, s)) = s"
| "final (Inr s) = s"

section \<open>numpy's generator: shuffle and choice without replacement\<close>

text \<open>
  \<open>np.random.shuffle(x)\<close>: for \<open>i\<close> from \<open>len(x) - 1\<close> down to 1, draw \<open>j\<close> in \<open>[0, i]\<close> and
  swap \<open>x[i]\<close> with \<open>x[j]\<close>.
\<close>

fun shuffle_steps :: "nat \<Rightarrow> 'a list \<Rightarrow> rng \<Rightarrow> 'a list \<times> rng" where
  "shuffle_steps 0 xs g = (xs, g)"
| "shuffle_steps (Suc i) xs g =
     (let j = fst (draw g) mod Suc (Suc i)
      in shuffle_steps i (xs[Suc i := xs ! j, j := xs ! Suc i]) (snd (draw g)))"

definition np_shuffle :: "'a list \<Rightarrow> rng \<Rightarrow> 'a list \<times> rng" where
  "np_shuffle xs g = shuffle_steps (length xs - 1) xs g"

text \<open>
  \<open>np.random.choice(n, k, replace=False)\<close> is the first \<open>k\<close> entries of a shuffled
  \<open>arange(n)\<close>. The source calls it only where \<open>k < n\<close>.
\<close>

definition np_choice :: "nat \<Rightarrow> nat \<Rightarrow> rng \<Rightarrow> nat list \<times> rng" where
  "np_choice n k g = (take k (fst (np_shuffle [0..<n] g)), snd (np_shuffle [0..<n] g))"

text \<open>
  The expression \<open>np.arange(r) if r <= k else np.random.choice(r, k, replace=False)\<close>
  that every memory-consuming strategy evaluates.
\<close>

definition mem_sample :: "nat \<Rightarrow> nat \<Rightarrow> rng \<Rightarrow> nat list \<times> rng" where
  "mem_sample r k g = (if r \<le> k then ([0..<r], g) else np_choice r k g)"

section \<open>normalize\_tensors\<close>

text \<open>
  The entries are binary64 values. A finite value is taken as the exact real: rounding to
  the nearest representable value is not modelled. Overflow is: a result whose magnitude
  reaches \<open>2^1024 - 2^970\<close> (half a unit in the last place above the largest finite
  value) is an infinity.
\<close>

definition FLOAT_OVERFLOW :: real where
  "FLOAT_OVERFLOW = 2 ^ 1024 - 2 ^ 970"

definition to_float :: "real \<Rightarrow> npfloat" where
  "to_float x =
     (if FLOAT_OVERFLOW \<le> x then PInf else if x \<le> - FLOAT_OVERFLOW then NInf else Fin x)"

text \<open>The difference of two finite values.\<close>

definition fsub :: "real \<Rightarrow> real \<Rightarrow> npfloat" where
  "fsub x y = to_float (x - y)"

text \<open>
  Division as numpy performs it: a zero divisor gives NaN for a zero dividend and an
  infinity otherwise (with a warning, not an exception); a finite value over an infinity
  is 0, an infinity over an infinity is NaN.
\<close>

fun fdiv :: "npfloat \<Rightarrow> npfloat \<Rightarrow> npfloat" where
  "fdiv (Fin x) (Fin y) =
     (if y = 0 then (if x = 0 then NaN else if 0 < x then PInf else NInf)
      else to_float (x / y))"
| "fdiv (Fin x) PInf = Fin 0"
| "fdiv (Fin x) NInf = Fin 0"
| "fdiv PInf (Fin y) = (if 0 \<le> y then PInf else NInf)"
| "fdiv NInf (Fin y) = (if 0 \<le> y then NInf else PInf)"
| "fdiv x y = NaN"

text \<open>
  One row of \<open>normalize_tensors\<close>: \<open>(a[i] - a[i].min()) / (a[i].max() - a[i].min())\<close>;
  \<open>a[i].min()\<close> and \<open>a[i].max()\<close> raise ValueError on an empty row.
\<close>

definition normalize_row :: "real list \<Rightarrow> error + npfloat list" where
  "normalize_row a =
     (if a = [] then Inl (ValueError ''zero-size array to reduction operation'')
      else Inr (map (\<lambda>x. fdiv (fsub x (Min (set a))) (fsub (Max (set a)) (Min (set a)))) a))"

fun normalize_tensors :: "real list list \<Rightarrow> error + npfloat list list" where
  "normalize_tensors [] = Inr []"
| "normalize_tensors (a # as) =
     (case normalize_row a of
        Inl e \<Rightarrow> Inl e
      | Inr r \<Rightarrow> (case normalize_tensors as of Inl e \<Rightarrow> Inl e | Inr rs \<Rightarrow> Inr (r # rs)))"

section \<open>The helper modules, modelled from the spec\<close>

text \<open>The class of a one-hot label: the position of its entry 1.\<close>

fun label_class_from :: "nat \<Rightarrow> label \<Rightarrow> nat option" where
  "label_class_from i [] = None"
| "label_class_from i (x # xs) = (if x = 1 then Some i else label_class_from (Suc i) xs)"

definition label_class :: "label \<Rightarrow> nat option" where
  "label_class l = label_class_from 0 l"

text \<open>
  Modelled from the spec: \<open>update_fifo_buffer\<close> of \<open>utils/er_utils.py\<close>, which is not
  among the sources. Spec 4.1: ``route each example to the ring for its label's class; if
  that class's ring has a free slot, append and increment its fill counter; else overwrite
  at the class's current write cursor and advance the cursor modulo \<open>mem_per_class\<close>''.
  The caller passes one counter per class (\<open>count_cls\<close>) and the first index of the block
  of rings (\<open>episodic_filled_counter\<close>): the counter of a class counts the examples routed
  to it, which is its fill level while the ring has a free slot and, modulo
  \<open>mem_per_class\<close>, its write cursor afterwards. A ring of capacity 0 admits nothing.
\<close>

definition fifo_offer ::
  "nat list \<Rightarrow> nat \<Rightarrow> nat \<Rightarrow> (nat \<Rightarrow> 'x) \<times> (nat \<Rightarrow> label) \<times> (nat \<Rightarrow> nat) \<Rightarrow> 'x \<times> label
   \<Rightarrow> (nat \<Rightarrow> 'x) \<times> (nat \<Rightarrow> label) \<times> (nat \<Rightarrow> nat)" where
  "fifo_offer task_labels mem_per_class base buf ex =
     (case buf of (imgs, lbls, cnt) \<Rightarrow>
        (case label_class (snd ex) of
           None \<Rightarrow> buf
         | Some c \<Rightarrow>
             if c \<notin> set task_labels \<or> mem_per_class = 0 then buf
             else
               let slot = (if cnt c < mem_per_class then cnt c else cnt c mod mem_per_class);
                   i = base + c * mem_per_class + slot
               in (imgs(i := fst ex), lbls(i := snd ex), cnt(c := Suc (cnt c)))))"

definition update_fifo_buffer ::
  "('x \<times> label) list \<Rightarrow> (nat \<Rightarrow> 'x) \<Rightarrow> (nat \<Rightarrow> label) \<Rightarrow> nat list \<Rightarrow> nat \<Rightarrow> (nat \<Rightarrow> nat) \<Rightarrow> nat
   \<Rightarrow> (nat \<Rightarrow> 'x) \<times> (nat \<Rightarrow> label) \<times> (nat \<Rightarrow> nat)" where
  "update_fifo_buffer current imgs lbls task_labels mem_per_class cnt base =
     foldl (fifo_offer task_labels mem_per_class base) (imgs, lbls, cnt) current"

text \<open>
  Modelled from the spec: \<open>update_reservior\<close> of \<open>utils/er_utils.py\<close>, which is not among
  the sources. Spec 4.1: ``for each example in the incoming batch, processed in batch
  order: if the buffer is not yet full, append; otherwise draw a uniform random index in
  \<open>[0, examples_seen_so_far]\<close> and if that index falls inside \<open>[0, capacity)\<close> overwrite the
  buffer slot at that index with the new example''; the count of examples seen grows by
  one per offered example and is returned.
\<close>

definition reservoir_offer ::
  "nat \<Rightarrow> (nat \<Rightarrow> image) \<times> (nat \<Rightarrow> label) \<times> nat \<times> rng \<Rightarrow> example
   \<Rightarrow> (nat \<Rightarrow> image) \<times> (nat \<Rightarrow> label) \<times> nat \<times> rng" where
  "reservoir_offer M buf ex =
     (case buf of (imgs, lbls, N, g) \<Rightarrow>
        if N < M then (imgs(N := fst ex), lbls(N := snd ex), Suc N, g)
        else
          let j = fst (draw g) mod Suc N
          in if j < M then (imgs(j := fst ex), lbls(j := snd ex), Suc N, snd (draw g))
             else (imgs, lbls, Suc N, snd (draw g)))"

definition update_reservior ::
  "example list \<Rightarrow> (nat \<Rightarrow> image) \<Rightarrow> (nat \<Rightarrow> label) \<Rightarrow> nat \<Rightarrow> nat \<Rightarrow> rng
   \<Rightarrow> (nat \<Rightarrow> image) \<times> (nat \<Rightarrow> label) \<times> nat \<times> rng" where
  "update_reservior current imgs lbls M N g =
     foldl (reservoir_offer M) (imgs, lbls, N, g) current"

section \<open>train\_task\_sequence\<close>

subsection \<open>Loops and small helpers\<close>

text \<open>A \<open>for\<close> loop whose body may raise: the first error ends the loop.\<close>

fun for_loop :: "('i \<Rightarrow> 's \<Rightarrow> ('e \<times> 's) + 's) \<Rightarrow> 'i list \<Rightarrow> 's \<Rightarrow> ('e \<times> 's) + 's" where
  "for_loop body [] s = Inr s"
| "for_loop body (i # is) s =
     (case body i s of Inl e \<Rightarrow> Inl e | Inr s' \<Rightarrow> for_loop body is s')"

text \<open>\<open>xs[a:b]\<close> for \<open>0 \<le> a\<close>, \<open>0 \<le> b\<close>\<close>

definition py_slice :: "nat \<Rightarrow> nat \<Rightarrow> 'a list \<Rightarrow> 'a list" where
  "py_slice a b xs = take (b - a) (drop a xs)"

text \<open>\<open>p in s\<close> on strings\<close>

fun str_in :: "string \<Rightarrow> string \<Rightarrow> bool" where
  "str_in p [] = (p = [])"
| "str_in p (c # cs) = (prefix p (c # cs) \<or> str_in p cs)"

definition use_episodic_memory :: "model \<Rightarrow> bool" where
  "use_episodic_memory mdl =
     (model_imp_method mdl = ''A-GEM'' \<or> model_imp_method mdl = ''MER''
      \<or> str_in ''ER-'' (model_imp_method mdl))"

definition emit :: "event \<Rightarrow> state \<Rightarrow> state" where
  "emit e s = s\<lparr>trace := trace s @ [e]\<rparr>"

text \<open>A \<open>sess.run\<close> whose results are dropped.\<close>

definition run_op :: "string list \<Rightarrow> feed \<Rightarrow> state \<Rightarrow> state" where
  "run_op ops fd s = emit (SessRun ops fd) s"

text \<open>A \<open>sess.run\<close> whose last fetched value is bound to \<open>loss\<close>.\<close>

definition run_loss :: "env \<Rightarrow> string list \<Rightarrow> feed \<Rightarrow> state \<Rightarrow> state" where
  "run_loss en ops fd s =
     (emit (SessRun ops fd) s)\<lparr>loss := Some (fetch_loss en (trace s @ [SessRun ops fd]))\<rparr>"

subsection \<open>test\_task\_sequence\<close>

fun eval_tasks :: "env \<Rightarrow> task_data list \<Rightarrow> real list \<Rightarrow> state \<Rightarrow> real list \<times> state" where
  "eval_tasks en [] list_acc s = (list_acc, s)"
| "eval_tasks en (d # ds) list_acc s =
     eval_tasks en ds
       (list_acc @ [fetch_accuracy en (trace s @ [AccuracyEval (test_set d)])])
       (emit (AccuracyEval (test_set d)) s)"

definition test_task_sequence :: "env \<Rightarrow> task_data list \<Rightarrow> state \<Rightarrow> real list \<times> state" where
  "test_task_sequence en test_data s = eval_tasks en test_data [] s"

subsection \<open>Buffer maintenance calls\<close>

definition mem_examples :: "state \<Rightarrow> nat list \<Rightarrow> example list" where
  "mem_examples s idx = map (\<lambda>i. (episodic_images s i, episodic_labels s i)) idx"

text \<open>
  \<open>update_fifo_buffer(..., episodic_images, episodic_labels, np.arange(TOTAL_CLASSES),
  args.mem_size, count_cls, episodic_filled_counter)\<close>: the arrays are updated in place,
  the counter is an integer passed by value.
\<close>

definition fifo_episodic :: "args \<Rightarrow> example list \<Rightarrow> state \<Rightarrow> state" where
  "fifo_episodic a rb s =
     (let r = update_fifo_buffer rb (episodic_images s) (episodic_labels s)
                [0..<TOTAL_CLASSES] (mem_size a) (count_cls s) (episodic_filled_counter s)
      in (emit (UpdateFifoBuffer ''episodic_images'' rb (mem_size a)
                  (episodic_filled_counter s)) s)
           \<lparr>episodic_images := fst r, episodic_labels := fst (snd r),
            count_cls := snd (snd r)\<rparr>)"

text \<open>
  \<open>update_fifo_buffer(..., anchor_images, anchor_labels, np.arange(TOTAL_CLASSES), 1,
  anchor_count_cls, anchors_counter)\<close>
\<close>

definition fifo_anchor :: "nat \<Rightarrow> example list \<Rightarrow> state \<Rightarrow> state" where
  "fifo_anchor anchors_counter rb s =
     (let r = update_fifo_buffer (map (\<lambda>ex. (map Fin (fst ex), snd ex)) rb)
                (anchor_images s) (anchor_labels s)
                [0..<TOTAL_CLASSES] 1 (anchor_count_cls s) anchors_counter
      in (emit (UpdateFifoBuffer ''anchor_images'' rb 1 anchors_counter) s)
           \<lparr>anchor_images := fst r, anchor_labels := fst (snd r),
            anchor_count_cls := snd (snd r)\<rparr>)"

text \<open>
  \<open>examples_seen_so_far = update_reservior(..., episodic_images, episodic_labels,
  episodic_mem_size, examples_seen_so_far)\<close>
\<close>

definition reservoir_update :: "nat \<Rightarrow> example list \<Rightarrow> state \<Rightarrow> state" where
  "reservoir_update episodic_mem_size rb s =
     (let r = update_reservior rb (episodic_images s) (episodic_labels s)
                episodic_mem_size (examples_seen_so_far s) (rng s)
      in (emit (UpdateReservior rb episodic_mem_size (examples_seen_so_far s)) s)
           \<lparr>episodic_images := fst r, episodic_labels := fst (snd r),
            examples_seen_so_far := fst (snd (snd r)), rng := snd (snd (snd r))\<rparr>)"

subsection \<open>One branch per strategy\<close>

text \<open>
  In every branch \<open>fb\<close> is \<open>train[offset:offset+batch_size]\<close> (the batch of the first
  \<open>feed_dict\<close>) and \<open>rb\<close> is \<open>train[offset:offset+residual]\<close>.
\<close>

definition step_van :: "env \<Rightarrow> example list \<Rightarrow> state \<Rightarrow> state" where
  "step_van en fb s = run_loss en [''train'', ''reg_loss''] (Feed fb) s"

definition step_ftr_ext :: "env \<Rightarrow> nat \<Rightarrow> example list \<Rightarrow> state \<Rightarrow> state" where
  "step_ftr_ext en task fb s =
     (if task = 0 then run_loss en [''train'', ''reg_loss''] (Feed fb) s
      else run_loss en [''train_classifier'', ''reg_loss''] (Feed fb) s)"

definition step_ewc :: "env \<Rightarrow> model \<Rightarrow> nat \<Rightarrow> nat \<Rightarrow> example list \<Rightarrow> state \<Rightarrow> outcome" where
  "step_ewc en mdl task iters fb s =
     (let s1 = (if task = 0 \<and> iters = 0
                then run_op [''set_initial_running_fisher''] (Feed fb) s else s)
      in if model_fisher_update_after mdl = 0 then Inl (ZeroDivisionError, s1)
         else
           let s2 = (if (iters + 1) mod model_fisher_update_after mdl = 0
                     then run_op [''reset_tmp_fisher''] NoFeed
                            (run_op [''set_running_fisher''] NoFeed s1)
                     else s1)
           in Inr (run_loss en [''set_tmp_fisher'', ''train'', ''reg_loss''] (Feed fb) s2))"

definition step_pi :: "env \<Rightarrow> example list \<Rightarrow> state \<Rightarrow> state" where
  "step_pi en fb s =
     run_loss en [''weights_old_ops_grouped'', ''train'', ''update_small_omega'', ''reg_loss'']
       (Feed fb) s"

definition step_mas :: "env \<Rightarrow> example list \<Rightarrow> state \<Rightarrow> state" where
  "step_mas en fb s = run_loss en [''train'', ''reg_loss''] (Feed fb) s"

definition step_agem ::
  "env \<Rightarrow> args \<Rightarrow> nat \<Rightarrow> example list \<Rightarrow> example list \<Rightarrow> state \<Rightarrow> state" where
  "step_agem en a task fb rb s =
     (let s2 =
        (if task = 0 then run_loss en [''train_first_task'', ''agem_loss''] (Feed fb) s
         else
           let smp = mem_sample (episodic_filled_counter s) (eps_mem_batch a) (rng s)
           in run_loss en [''train_subseq_tasks'', ''agem_loss''] (Feed fb)
                (run_op [''store_ref_grads''] (Feed (mem_examples s (fst smp)))
                   (s\<lparr>rng := snd smp\<rparr>)))
      in fifo_episodic a rb s2)"

definition step_rwalk :: "env \<Rightarrow> model \<Rightarrow> nat \<Rightarrow> nat \<Rightarrow> example list \<Rightarrow> state \<Rightarrow> outcome" where
  "step_rwalk en mdl task iters fb s =
     (let s1 = (if task = 0 \<and> iters = 0
                then run_op [''weights_delta_old_grouped''] NoFeed
                       (run_op [''set_initial_running_fisher''] (Feed fb) s)
                else s)
      in if model_fisher_update_after mdl = 0 then Inl (ZeroDivisionError, s1)
         else
           let s2 = (if (iters + 1) mod model_fisher_update_after mdl = 0
                     then run_op [''reset_small_omega''] NoFeed
                            (run_op [''weights_delta_old_grouped''] NoFeed
                               (run_op [''set_running_fisher''] NoFeed
                                  (run_op [''update_big_omega_riemann''] NoFeed s1)))
                     else s1)
           in Inr (run_loss en
                     [''set_tmp_fisher'', ''weights_old_ops_grouped'', ''train'',
                      ''update_small_omega'', ''reg_loss''] (Feed fb) s2))"

text \<open>
  \<open>mem_filled_so_far\<close> of the reservoir strategies (from \<open>examples_seen_so_far\<close>) and of
  the ring strategies (from \<open>episodic_filled_counter\<close>).
\<close>

definition mem_filled_so_far :: "nat \<Rightarrow> nat \<Rightarrow> nat" where
  "mem_filled_so_far filled episodic_mem_size =
     (if filled \<le> episodic_mem_size then filled else episodic_mem_size)"

text \<open>
  \<open>er_mem_indices\<close> of ER-Reservoir and \<open>mer_mem_indices\<close> of MER: the selection, then
  \<open>np.random.shuffle\<close> of it.
\<close>

definition reservoir_mem_indices :: "args \<Rightarrow> nat \<Rightarrow> state \<Rightarrow> nat list \<times> rng" where
  "reservoir_mem_indices a episodic_mem_size s =
     (let smp = mem_sample (mem_filled_so_far (examples_seen_so_far s) episodic_mem_size)
                  (eps_mem_batch a) (rng s)
      in np_shuffle (fst smp) (snd smp))"

text \<open>\<open>er_mem_indices\<close> of ER-Ring and ER-Hindsight-Anchors, drawn from generator \<open>g\<close>.\<close>

definition ring_mem_indices :: "args \<Rightarrow> nat \<Rightarrow> state \<Rightarrow> rng \<Rightarrow> nat list \<times> rng" where
  "ring_mem_indices a episodic_mem_size s g =
     mem_sample (mem_filled_so_far (episodic_filled_counter s) episodic_mem_size)
       (eps_mem_batch a) g"

definition step_er_reservoir ::
  "env \<Rightarrow> args \<Rightarrow> nat \<Rightarrow> example list \<Rightarrow> state \<Rightarrow> state" where
  "step_er_reservoir en a episodic_mem_size rb s =
     (let idx = reservoir_mem_indices a episodic_mem_size s
      in reservoir_update episodic_mem_size rb
           (run_loss en [''train'', ''reg_loss''] (Feed (mem_examples s (fst idx) @ rb))
              (s\<lparr>rng := snd idx\<rparr>)))"

text \<open>MER's loop over the sampled memory examples, one step each.\<close>

definition mer_memory_steps :: "env \<Rightarrow> example list \<Rightarrow> state \<Rightarrow> state" where
  "mer_memory_steps en xs s =
     foldl (\<lambda>st ex. run_loss en [''train'', ''reg_loss''] (Feed [ex]) st) s xs"

definition step_mer :: "env \<Rightarrow> args \<Rightarrow> nat \<Rightarrow> example list \<Rightarrow> state \<Rightarrow> state" where
  "step_mer en a episodic_mem_size rb s =
     (let idx = reservoir_mem_indices a episodic_mem_size s;
          s1 = run_op [''store_theta_i_not_w''] NoFeed (s\<lparr>rng := snd idx\<rparr>);
          s2 = mer_memory_steps en (mem_examples s (fst idx)) s1;
          s3 = run_loss en [''train'', ''reg_loss''] (FeedScaled MER_S rb) s2;
          s4 = run_op [''with_in_batch_reptile_update''] FeedBeta s3
      in reservoir_update episodic_mem_size rb s4)"

definition step_er_ring :: "env \<Rightarrow> args \<Rightarrow> nat \<Rightarrow> example list \<Rightarrow> state \<Rightarrow> state" where
  "step_er_ring en a episodic_mem_size rb s =
     (let idx = ring_mem_indices a episodic_mem_size s (rng s)
      in fifo_episodic a rb
           (run_loss en [''train'', ''reg_loss''] (Feed (mem_examples s (fst idx) @ rb))
              (s\<lparr>rng := snd idx\<rparr>)))"

definition step_er_hindsight ::
  "env \<Rightarrow> args \<Rightarrow> nat \<Rightarrow> nat \<Rightarrow> nat \<Rightarrow> example list \<Rightarrow> state \<Rightarrow> state" where
  "step_er_hindsight en a episodic_mem_size task anchors_counter rb s =
     (let anchor_idx = mem_sample anchors_counter (eps_mem_batch a) (rng s);
          idx = ring_mem_indices a episodic_mem_size s (snd anchor_idx);
          er_batch = mem_examples s (fst idx) @ rb;
          s1 = s\<lparr>rng := snd idx\<rparr>;
          s2 = (if task = 0
                then fifo_anchor anchors_counter rb
                       ((run_loss en [''phi_hat'', ''train'', ''reg_loss''] (Feed er_batch) s1)
                          \<lparr>phi_hat_bound := True\<rparr>)
                else (run_loss en
                        [''phi_hat'', ''train_anchor'', ''anchor_loss'', ''task_loss'',
                         ''final_anchor_loss'']
                        (FeedAnchors er_batch (map (anchor_images s) (fst anchor_idx))) s1)
                       \<lparr>phi_hat_bound := True\<rparr>)
      in fifo_episodic a rb (emit (UpdateAvgImageVectors rb) s2))"

text \<open>The \<open>if\<close>/\<open>elif\<close> chain on \<open>model.imp_method\<close>; a name with no branch runs nothing.\<close>

definition strategy_step ::
  "env \<Rightarrow> args \<Rightarrow> model \<Rightarrow> nat \<Rightarrow> nat \<Rightarrow> nat \<Rightarrow> nat \<Rightarrow> example list \<Rightarrow> example list
   \<Rightarrow> state \<Rightarrow> outcome" where
  "strategy_step en a mdl episodic_mem_size task anchors_counter iters fb rb s =
     (if model_imp_method mdl = ''VAN'' then Inr (step_van en fb s)
      else if model_imp_method mdl = ''FTR_EXT'' then Inr (step_ftr_ext en task fb s)
      else if model_imp_method mdl = ''EWC'' then step_ewc en mdl task iters fb s
      else if model_imp_method mdl = ''PI'' then Inr (step_pi en fb s)
      else if model_imp_method mdl = ''MAS'' then Inr (step_mas en fb s)
      else if model_imp_method mdl = ''A-GEM'' then Inr (step_agem en a task fb rb s)
      else if model_imp_method mdl = ''RWALK'' then step_rwalk en mdl task iters fb s
      else if model_imp_method mdl = ''ER-Reservoir''
        then Inr (step_er_reservoir en a episodic_mem_size rb s)
      else if model_imp_method mdl = ''MER'' then Inr (step_mer en a episodic_mem_size rb s)
      else if model_imp_method mdl = ''ER-Ring''
        then Inr (step_er_ring en a episodic_mem_size rb s)
      else if model_imp_method mdl = ''ER-Hindsight-Anchors''
        then Inr (step_er_hindsight en a episodic_mem_size task anchors_counter rb s)
      else Inr s)"

subsection \<open>One training iteration\<close>

text \<open>The condition under which the loop body takes an accuracy snapshot first.\<close>

definition snapshot_due :: "args \<Rightarrow> nat \<Rightarrow> bool" where
  "snapshot_due a iters =
     (train_single_epoch a \<and> \<not> cross_validate_mode a
      \<and> (iters < 10 \<or> (iters < 100 \<and> iters mod 10 = 0) \<or> iters mod 100 = 0))"

definition take_snapshot :: "env \<Rightarrow> task_data list \<Rightarrow> state \<Rightarrow> state" where
  "take_snapshot en datasets s =
     (snd (test_task_sequence en datasets s))
       \<lparr>ftask := ftask s @ [fst (test_task_sequence en datasets s)]\<rparr>"

text \<open>
  The end of the loop body: the print every tenth iteration and \<open>math.isnan(loss)\<close> both
  read \<open>loss\<close>, which is unbound when no branch has assigned it; a NaN loss is
  \<open>sys.exit(0)\<close>.
\<close>

definition check_loss :: "state \<Rightarrow> outcome" where
  "check_loss s =
     (case loss s of
        None \<Rightarrow> Inl (NameError ''loss'', s)
      | Some l \<Rightarrow> if isnan l then Inl (SystemExit 0, s) else Inr s)"

text \<open>
  \<open>offset\<close> and \<open>residual\<close> of iteration \<open>iters\<close> over \<open>n\<close> training examples (\<open>0 < n\<close>),
  the batch \<open>train[offset:offset+batch_size]\<close> of the first \<open>feed_dict\<close> and the realized
  batch \<open>train[offset:offset+residual]\<close>.
\<close>

definition offset_of :: "args \<Rightarrow> nat \<Rightarrow> nat \<Rightarrow> nat" where
  "offset_of a n iters = (iters * batch_size a) mod n"

definition residual_of :: "args \<Rightarrow> nat \<Rightarrow> nat \<Rightarrow> nat" where
  "residual_of a n iters =
     (if offset_of a n iters + batch_size a \<le> n then batch_size a
      else n - offset_of a n iters)"

definition feed_batch :: "args \<Rightarrow> example list \<Rightarrow> nat \<Rightarrow> example list" where
  "feed_batch a train_xy iters =
     py_slice (offset_of a (length train_xy) iters)
       (offset_of a (length train_xy) iters + batch_size a) train_xy"

definition realized_batch :: "args \<Rightarrow> example list \<Rightarrow> nat \<Rightarrow> example list" where
  "realized_batch a train_xy iters =
     py_slice (offset_of a (length train_xy) iters)
       (offset_of a (length train_xy) iters + residual_of a (length train_xy) iters) train_xy"

text \<open>
  The loop body up to and including the strategy's branch; \<open>iters * batch_size %
  num_train_examples\<close> raises on an empty training split.
\<close>

definition iter_step ::
  "env \<Rightarrow> args \<Rightarrow> model \<Rightarrow> task_data list \<Rightarrow> nat \<Rightarrow> nat \<Rightarrow> example list \<Rightarrow> nat \<Rightarrow> state
   \<Rightarrow> outcome" where
  "iter_step en a mdl datasets episodic_mem_size task train_xy iters s =
     (let s1 = (if snapshot_due a iters then take_snapshot en datasets s else s)
      in if length train_xy = 0 then Inl (ZeroDivisionError, s1)
         else strategy_step en a mdl episodic_mem_size task (task * TOTAL_CLASSES) iters
                (feed_batch a train_xy iters) (realized_batch a train_xy iters) s1)"

definition train_iter ::
  "env \<Rightarrow> args \<Rightarrow> model \<Rightarrow> task_data list \<Rightarrow> nat \<Rightarrow> nat \<Rightarrow> example list \<Rightarrow> nat \<Rightarrow> state
   \<Rightarrow> outcome" where
  "train_iter en a mdl datasets episodic_mem_size task train_xy iters s =
     (case iter_step en a mdl datasets episodic_mem_size task train_xy iters s of
        Inl e \<Rightarrow> Inl e
      | Inr s2 \<Rightarrow> check_loss s2)"

subsection \<open>One task\<close>

text \<open>
  The assignment \<open>anchor_images[anchors_counter:anchors_counter+TOTAL_CLASSES] = rows\<close>;
  \<open>er_mem_update_hindsight\<close> returns the \<open>TOTAL_CLASSES\<close> rows it was handed.
\<close>

definition write_rows :: "nat \<Rightarrow> 'a list \<Rightarrow> (nat \<Rightarrow> 'a) \<Rightarrow> (nat \<Rightarrow> 'a)" where
  "write_rows base rows buf =
     (\<lambda>i. if base \<le> i \<and> i < base + length rows then rows ! (i - base) else buf i)"

text \<open>
  After the loop, under ER-Hindsight-Anchors: nothing for task 0 (``anchors are already
  populated''), otherwise the anchors of the task are synthesised, normalised and written;
  the average image vectors are reset in both cases.
\<close>

definition hindsight_hook :: "env \<Rightarrow> nat \<Rightarrow> state \<Rightarrow> outcome" where
  "hindsight_hook en task s =
     (if task = 0 then Inr (emit ResetAvgImageVectors s)
      else if \<not> phi_hat_bound s then Inl (NameError ''phi_hat'', s)
      else
        let s1 = emit (ErMemUpdateHindsight (episodic_filled_counter s)) s;
            r = er_mem_update_hindsight en (trace s1) (rng s1);
            s2 = s1\<lparr>rng := snd r\<rparr>
        in case normalize_tensors (fst (fst r)) of
             Inl e \<Rightarrow> Inl (e, s2)
           | Inr rows \<Rightarrow>
               Inr (emit ResetAvgImageVectors
                      (s2\<lparr>anchor_images := write_rows (task * TOTAL_CLASSES) rows (anchor_images s2),
                          anchor_labels :=
                            write_rows (task * TOTAL_CLASSES) (snd (fst r)) (anchor_labels s2)\<rparr>)))"

text \<open>
  The rest of the task after the hook: the counter, the inter-task update, the evaluation,
  \<open>evals.append(ftask)\<close> and the optimizer reset.
\<close>

definition finish_task :: "env \<Rightarrow> args \<Rightarrow> model \<Rightarrow> task_data list \<Rightarrow> nat \<Rightarrow> state \<Rightarrow> state" where
  "finish_task en a mdl datasets task s =
     (let s1 = (if use_episodic_memory mdl
                then s\<lparr>episodic_filled_counter :=
                         episodic_filled_counter s + mem_size a * TOTAL_CLASSES\<rparr>
                else s);
          s2 = (if task < length datasets - 1 then emit (TaskUpdates task) s1 else s1);
          r = test_task_sequence en datasets s2;
          s3 = (if train_single_epoch a \<and> \<not> cross_validate_mode a
                then (snd r)\<lparr>ftask := ftask s2 @ [fst r],
                             evals := evals s2 @ [Curve (ftask s2 @ [fst r])]\<rparr>
                else (snd r)\<lparr>evals := evals s2 @ [Final (fst r)]\<rparr>)
      in emit ResetOptimizer s3)"

definition after_loop ::
  "env \<Rightarrow> args \<Rightarrow> model \<Rightarrow> task_data list \<Rightarrow> nat \<Rightarrow> state \<Rightarrow> outcome" where
  "after_loop en a mdl datasets task s =
     (if model_imp_method mdl = ''ER-Hindsight-Anchors''
      then (case hindsight_hook en task s of
              Inl e \<Rightarrow> Inl e
            | Inr s1 \<Rightarrow> Inr (finish_task en a mdl datasets task s1))
      else Inr (finish_task en a mdl datasets task s))"

text \<open>
  The start of a task: the restore, the shuffled and truncated training split, the empty
  \<open>ftask\<close>. The result is the state and \<open>(train_x, train_y)\<close>.
\<close>

definition begin_task :: "args \<Rightarrow> task_data list \<Rightarrow> nat \<Rightarrow> state \<Rightarrow> state \<times> example list" where
  "begin_task a datasets task s =
     (let s1 = (if 0 < task then emit Restore s else s);
          d = train_set (datasets ! task);
          perm = np_shuffle [0..<length d] (rng s1)
      in (s1\<lparr>rng := snd perm, ftask := []\<rparr>,
          take (examples_per_task a) (map (\<lambda>i. d ! i) (fst perm))))"

definition train_loop ::
  "env \<Rightarrow> args \<Rightarrow> model \<Rightarrow> task_data list \<Rightarrow> nat \<Rightarrow> nat \<Rightarrow> example list \<Rightarrow> nat list \<Rightarrow> state
   \<Rightarrow> outcome" where
  "train_loop en a mdl datasets episodic_mem_size task train_xy its s =
     for_loop (train_iter en a mdl datasets episodic_mem_size task train_xy) its s"

definition num_iters_of :: "args \<Rightarrow> nat \<Rightarrow> nat" where
  "num_iters_of a n =
     (if train_single_epoch a then (n + batch_size a - 1) div batch_size a
      else train_iters a)"

definition train_task ::
  "env \<Rightarrow> args \<Rightarrow> model \<Rightarrow> task_data list \<Rightarrow> nat \<Rightarrow> nat \<Rightarrow> state \<Rightarrow> outcome" where
  "train_task en a mdl datasets episodic_mem_size task s =
     (let b = begin_task a datasets task s;
          n = length (snd b)
      in if train_single_epoch a \<and> batch_size a = 0 then Inl (ZeroDivisionError, fst b)
         else
           case train_loop en a mdl datasets episodic_mem_size task (snd b)
                  [0..<num_iters_of a n] (fst b) of
             Inl e \<Rightarrow> Inl e
           | Inr s1 \<Rightarrow> after_loop en a mdl datasets task s1)"

subsection \<open>One run and all runs\<close>

definition init_memory :: "model \<Rightarrow> state \<Rightarrow> state" where
  "init_memory mdl s =
     (if use_episodic_memory mdl
      then
        let s1 = s\<lparr>episodic_images := (\<lambda>i. replicate INPUT_FEATURE_SIZE 0),
                   episodic_labels := (\<lambda>i. replicate TOTAL_CLASSES 0),
                   count_cls := (\<lambda>c. 0),
                   episodic_filled_counter := 0,
                   examples_seen_so_far := 0\<rparr>
        in if model_imp_method mdl = ''ER-Hindsight-Anchors''
           then s1\<lparr>anchor_images := (\<lambda>i. replicate INPUT_FEATURE_SIZE (Fin 0)),
                   anchor_labels := (\<lambda>i. replicate TOTAL_CLASSES 0),
                   anchor_count_cls := (\<lambda>c. 0)\<rparr>
           else s1
      else s)"

text \<open>
  The start of a run, up to the first task. \<open>np.random.seed\<close> accepts a seed in
  \<open>[0, 2**32 - 1]\<close> and raises ValueError for any other integer, before the generator
  is touched. The result of a run that starts is the state and \<open>datasets\<close>.
\<close>

definition begin_run ::
  "env \<Rightarrow> args \<Rightarrow> model \<Rightarrow> nat \<Rightarrow> state \<Rightarrow> (error \<times> state) + (state \<times> task_data list)" where
  "begin_run en a mdl runid s =
     (let seed = random_seed a + int runid;
          s0 = emit (RandomSeed seed) s
      in if seed < 0 \<or> 2 ^ 32 \<le> seed
         then Inl (ValueError ''Seed must be between 0 and 2**32 - 1'', s0)
         else
           let s1 = s0\<lparr>rng := np_seed en seed\<rparr>;
               r = construct_permute_mnist en (num_tasks mdl) (rng s1);
               s2 = (emit (ConstructPermuteMnist (num_tasks mdl)) s1)\<lparr>rng := snd r\<rparr>;
               s3 = emit InitUpdates (emit GlobalVariablesInitializer s2)
           in Inr (init_memory mdl (s3\<lparr>evals := []\<rparr>), fst r))"

definition run_tasks ::
  "env \<Rightarrow> args \<Rightarrow> model \<Rightarrow> task_data list \<Rightarrow> nat list \<Rightarrow> state \<Rightarrow> outcome" where
  "run_tasks en a mdl datasets tasks s =
     for_loop (train_task en a mdl datasets (mem_size a * num_tasks mdl * TOTAL_CLASSES))
       tasks s"

definition one_run :: "env \<Rightarrow> args \<Rightarrow> model \<Rightarrow> nat \<Rightarrow> state \<Rightarrow> outcome" where
  "one_run en a mdl runid s =
     (case begin_run en a mdl runid s of
        Inl e \<Rightarrow> Inl e
      | Inr b \<Rightarrow>
          (case run_tasks en a mdl (snd b) [0..<length (snd b)] (fst b) of
             Inl e \<Rightarrow> Inl e
           | Inr s1 \<Rightarrow> Inr (s1\<lparr>runs := runs s1 @ [evals s1]\<rparr>)))"

definition train_task_sequence :: "env \<Rightarrow> args \<Rightarrow> model \<Rightarrow> state \<Rightarrow> outcome" where
  "train_task_sequence en a mdl s =
     for_loop (one_run en a mdl) [0..<num_runs a]
       (s\<lparr>runs := [], loss := None, phi_hat_bound := False\<rparr>)"

section \<open>main\<close>

text \<open>The state before anything has run; the generator is reseeded before it is used.\<close>

definition init_state :: state where
  "init_state =
     \<lparr>rng = (\<lambda>n. 0), trace = [],
      episodic_images = (\<lambda>i. []), episodic_labels = (\<lambda>i. []), count_cls = (\<lambda>c. 0),
      episodic_filled_counter = 0, examples_seen_so_far = 0,
      anchor_images = (\<lambda>i. []), anchor_labels = (\<lambda>i. []), anchor_count_cls = (\<lambda>c. 0),
      loss = None, phi_hat_bound = False, ftask = [], evals = [], runs = []\<rparr>"

text \<open>
  What \<open>main\<close> does between the validation of the options and the call of
  \<open>train_task_sequence\<close>: the log directory, the snapshot of the options, the graph with
  \<open>tf.set_random_seed(args.random_seed)\<close>, the optimizer and the \<open>Model\<close>. The result
  is the state and the model.
\<close>

definition build_model :: "env \<Rightarrow> args \<Rightarrow> state \<times> model" where
  "build_model en a =
     (let s1 = (if \<not> path_exists en (log_dir a) then emit (MakeDirs (log_dir a)) init_state
                else init_state);
          s2 = emit SnapshotExperimentMetaData s1;
          n = (if online_cross_val a then K_FOR_CROSS_VAL else NUM_TASKS - K_FOR_CROSS_VAL);
          s3 = emit (SetRandomSeed (random_seed a)) (emit ResetDefaultGraph s2);
          s4 = emit (BuildOptimizer (optim a)) s3;
          s5 = emit (BuildModel (imp_method a) n (arch a)) s4
      in (s5, \<lparr>model_imp_method = imp_method a, num_tasks = n,
                model_fisher_update_after = fisher_update_after a\<rparr>))"

definition main :: "env \<Rightarrow> args \<Rightarrow> outcome" where
  "main en a =
     (if arch a \<notin> set VALID_ARCHS
      then Inl (ValueError (''Network architecture '' @ arch a @ '' is not supported!''),
                init_state)
      else if imp_method a \<notin> set MODELS
      then Inl (ValueError (''Importance measure '' @ imp_method a @ '' is undefined!''),
                init_state)
      else if optim a \<notin> set VALID_OPTIMS
      then Inl (ValueError (''Optimizer '' @ optim a @ '' is undefined!''), init_state)
      else
        let b = build_model en a
        in case train_task_sequence en a (snd b) (fst b) of
             Inl e \<Rightarrow> Inl e
           | Inr s6 \<Rightarrow>
               let s7 = emit SessionClose s6;
                   s8 = (if cross_validate_mode a then emit CrossValidateDump s7 else s7)
               in Inr (emit SnapshotExperimentEval s8))"

section \<open>Example inputs\<close>

text \<open>
  One-hot labels, images with all \<open>INPUT_FEATURE_SIZE\<close> pixels equal, a task whose
  training split holds two examples of class 0, collaborators that return a fixed loss,
  and a small configuration.
\<close>

definition class0 :: label where
  "class0 = [1, 0, 0, 0, 0, 0, 0, 0, 0, 0]"

definition one_hot :: "nat \<Rightarrow> label" where
  "one_hot c = (replicate TOTAL_CLASSES 0)[c := 1]"

definition flat_image :: "real \<Rightarrow> image" where
  "flat_image v = replicate INPUT_FEATURE_SIZE v"

definition ex_task :: task_data where
  "ex_task = \<lparr>train_set = [(flat_image 0, class0), (flat_image 1, class0)], test_set = []\<rparr>"

definition ex_env :: "npfloat \<Rightarrow> env" where
  "ex_env l =
     \<lparr>np_seed = (\<lambda>seed n. 0),
      construct_permute_mnist = (\<lambda>n g. (replicate n ex_task, g)),
      fetch_loss = (\<lambda>tr. l),
      fetch_accuracy = (\<lambda>tr. 0),
      er_mem_update_hindsight = (\<lambda>tr g. (([], []), g)),
      path_exists = (\<lambda>p. True)\<rparr>"

definition ex_args :: args where
  "ex_args =
     \<lparr>cross_validate_mode = False, online_cross_val = True, train_single_epoch = False,
      arch = ''FC-S'', num_runs = 1, train_iters = 2, batch_size = 1, random_seed = 1234,
      optim = ''SGD'', imp_method = ''VAN'', fisher_update_after = 10, mem_size = 1,
      eps_mem_batch = 1, examples_per_task = 2, log_dir = ''./permute_mnist_results''\<rparr>"

definition ex_model :: "string \<Rightarrow> model" where
  "ex_model m = \<lparr>model_imp_method = m, num_tasks = 1, model_fisher_update_after = 10\<rparr>"

definition ex_reservoir_args :: args where
  "ex_reservoir_args =
     ex_args\<lparr>imp_method := ''ER-Reservoir'', train_iters := 3, eps_mem_batch := 2\<rparr>"

text \<open>
  Collaborators whose anchor synthesis returns the zero vector for every class, the
  representative of a class with no resident example (spec 4.1).
\<close>

definition ex_empty_class_env :: env where
  "ex_empty_class_env =
     (ex_env (Fin 0))
       \<lparr>er_mem_update_hindsight :=
          (\<lambda>tr g. ((replicate TOTAL_CLASSES (flat_image 0),
                     map one_hot [0..<TOTAL_CLASSES]), g))\<rparr>"

definition ex_ring_model :: model where
  "ex_ring_model = \<lparr>model_imp_method = ''ER-Ring'', num_tasks = 2, model_fisher_update_after = 10\<rparr>"

text \<open>A slot of the episodic arrays as \<open>np.zeros\<close> leaves it.\<close>

definition zero_row :: example where
  "zero_row = (replicate INPUT_FEATURE_SIZE 0, replicate TOTAL_CLASSES 0)"

text \<open>
  An A-GEM run of two tasks with one iteration each, whose memory batch is as large as the
  block of slots that a task reserves.
\<close>

definition ex_agem_args :: args where
  "ex_agem_args = ex_args\<lparr>imp_method := ''A-GEM'', train_iters := 1, eps_mem_batch := 10\<rparr>"

definition ex_agem_model :: model where
  "ex_agem_model = \<lparr>model_imp_method = ''A-GEM'', num_tasks = 2, model_fisher_update_after = 10\<rparr>"

text \<open>
  Collaborators whose generator depends on the seed it is given and whose model depends on
  the seed of the graph: every accuracy is 1 when \<open>tf.set_random_seed(1)\<close> was called
  and 0 otherwise.
\<close>

definition ex_seeded_env :: env where
  "ex_seeded_env =
     \<lparr>np_seed = (\<lambda>seed n. nat seed + n),
      construct_permute_mnist = (\<lambda>n g. (map (\<lambda>i. ex_task) [0..<n], g)),
      fetch_loss = (\<lambda>tr. Fin 0),
      fetch_accuracy = (\<lambda>tr. if SetRandomSeed 1 \<in> set tr then 1 else 0),
      er_mem_update_hindsight = (\<lambda>tr g. (([], []), g)),
      path_exists = (\<lambda>p. True)\<rparr>"

text \<open>
  Two ER-Ring runs with base seed 1, the model that \<open>main\<close> builds for them, and the
  state in which \<open>main\<close> enters run \<open>i\<close> of a configuration.
\<close>

definition ex_two_run_args :: args where
  "ex_two_run_args =
     ex_args\<lparr>imp_method := ''ER-Ring'', random_seed := 1, num_runs := 2, train_iters := 1\<rparr>"

definition ex_main_model :: model where
  "ex_main_model = snd (build_model ex_seeded_env ex_two_run_args)"

definition ex_before_run :: "args \<Rightarrow> nat \<Rightarrow> state" where
  "ex_before_run a i =
     final (for_loop (one_run ex_seeded_env a (snd (build_model ex_seeded_env a))) [0..<i]
              ((fst (build_model ex_seeded_env a))
                 \<lparr>runs := [], loss := None, phi_hat_bound := False\<rparr>))"

section \<open>Specification vocabulary\<close>

text \<open>State \<open>s'\<close> extends the log of state \<open>s\<close> by events that all satisfy \<open>Q\<close>.\<close>

definition emits_only :: "(event \<Rightarrow> bool) \<Rightarrow> state \<Rightarrow> state \<Rightarrow> bool" where
  "emits_only Q s s' = (\<exists>evs. trace s' = trace s @ evs \<and> list_all Q evs)"

text \<open>
  The examples that the iterations \<open>its\<close> of a task offer to the buffers, in order, and the
  first and the last example of a class in such a stream.
\<close>

definition task_stream :: "args \<Rightarrow> example list \<Rightarrow> nat list \<Rightarrow> example list" where
  "task_stream a train_xy its = concat (map (realized_batch a train_xy) its)"

definition first_of_class :: "nat \<Rightarrow> ('x \<times> label) list \<Rightarrow> ('x \<times> label) option" where
  "first_of_class c xs = find (\<lambda>ex. label_class (snd ex) = Some c) xs"

definition last_of_class :: "nat \<Rightarrow> ('x \<times> label) list \<Rightarrow> ('x \<times> label) option" where
  "last_of_class c xs = find (\<lambda>ex. label_class (snd ex) = Some c) (rev xs)"

text \<open>
  What a run holds outside the session: the generator, the episodic arrays, the per-class
  counts and the two fill counters.
\<close>

definition memory_of ::
  "state \<Rightarrow> rng \<times> (nat \<Rightarrow> image) \<times> (nat \<Rightarrow> label) \<times> (nat \<Rightarrow> nat) \<times> nat \<times> nat" where
  "memory_of s =
     (rng s, episodic_images s, episodic_labels s, count_cls s, episodic_filled_counter s,
      examples_seen_so_far s)"

section \<open>Basic facts\<close>

lemmas ex_defs = ex_env_def ex_args_def ex_model_def ex_task_def

lemmas step_defs = step_van_def step_ftr_ext_def step_ewc_def step_pi_def step_mas_def
  step_agem_def step_rwalk_def step_er_reservoir_def step_mer_def step_er_ring_def
  step_er_hindsight_def

lemmas op_defs = run_loss_def run_op_def emit_def fifo_episodic_def fifo_anchor_def
  reservoir_update_def

lemmas run_defs = begin_run_def begin_task_def init_memory_def use_episodic_memory_def
  run_tasks_def train_loop_def num_iters_of_def iter_step_def snapshot_due_def
  strategy_step_def py_slice_def np_shuffle_def draw_def

lemmas all_defs = ex_defs run_defs op_defs step_defs init_state_def Let_def
  train_task_sequence_def one_run_def train_task_def train_iter_def check_loss_def
  after_loop_def finish_task_def test_task_sequence_def isnan_def
  offset_of_def residual_of_def feed_batch_def realized_batch_def take_snapshot_def
  upt_conv_Cons

subsection \<open>Loops\<close>

lemma for_loop_append:
  "for_loop body (xs @ ys) s =
     (case for_loop body xs s of Inl e \<Rightarrow> Inl e | Inr s' \<Rightarrow> for_loop body ys s')"
  by (induction xs arbitrary: s) (auto split: sum.splits)

lemma upt_split: "i < n \<Longrightarrow> [0..<n] = [0..<i] @ i # [Suc i..<n]"
  by (metis less_imp_add_positive upt_add_eq_append upt_conv_Cons zero_le)

lemma not_isl_final: "\<not> isl x \<Longrightarrow> x = Inr (final x)"
  by (cases x) simp_all

text \<open>An error in iteration \<open>i\<close> is the result of the whole loop.\<close>

lemma for_loop_abort_at:
  assumes "for_loop body [0..<i] s0 = Inr s" and "body i s = Inl e" and "i < n"
  shows "for_loop body [0..<n] s0 = Inl e"
  using assms by (simp add: upt_split [of i n] for_loop_append)

subsection \<open>What an evaluation and a strategy branch leave unchanged\<close>

lemma eval_tasks_state:
  "snd (eval_tasks en ds acc s) =
     s\<lparr>trace := trace s @ map (\<lambda>d. AccuracyEval (test_set d)) ds\<rparr>"
  by (induction ds arbitrary: acc s) (simp_all add: emit_def)

lemma test_task_sequence_state:
  "snd (test_task_sequence en ds s) =
     s\<lparr>trace := trace s @ map (\<lambda>d. AccuracyEval (test_set d)) ds\<rparr>"
  by (simp add: test_task_sequence_def eval_tasks_state)

lemma take_snapshot_state:
  "take_snapshot en ds s =
     s\<lparr>trace := trace s @ map (\<lambda>d. AccuracyEval (test_set d)) ds,
       ftask := ftask s @ [fst (test_task_sequence en ds s)]\<rparr>"
  by (simp add: take_snapshot_def test_task_sequence_state)

lemma mer_memory_steps_frame:
  "ftask (mer_memory_steps en xs s) = ftask s"
  "episodic_filled_counter (mer_memory_steps en xs s) = episodic_filled_counter s"
  by (induction xs arbitrary: s) (simp_all add: mer_memory_steps_def run_loss_def emit_def)

lemma strategy_step_ftask:
  "ftask (final (strategy_step en a mdl ems task ac iters fb rb s)) = ftask s"
  by (simp add: strategy_step_def step_defs op_defs Let_def mer_memory_steps_frame)

lemma strategy_step_counter:
  "episodic_filled_counter (final (strategy_step en a mdl ems task ac iters fb rb s)) =
     episodic_filled_counter s"
  by (simp add: strategy_step_def step_defs op_defs Let_def mer_memory_steps_frame)

lemma final_check_loss: "final (check_loss s) = s"
  by (simp add: check_loss_def split: option.split)

lemma final_train_iter:
  "final (train_iter en a mdl ds ems task tr iters s) =
     final (iter_step en a mdl ds ems task tr iters s)"
proof (cases "iter_step en a mdl ds ems task tr iters s")
  case (Inl e)
  then show ?thesis by (cases e) (simp add: train_iter_def)
next
  case (Inr s2)
  then show ?thesis by (simp add: train_iter_def final_check_loss)
qed

subsection \<open>The shuffle is a permutation, a memory sample is a set of distinct indices\<close>

lemma shuffle_steps_mset:
  "i < length xs \<Longrightarrow> mset (fst (shuffle_steps i xs g)) = mset xs"
proof (induction i arbitrary: xs g)
  case 0
  then show ?case by simp
next
  case (Suc i)
  let ?j = "fst (draw g) mod Suc (Suc i)"
  have "?j < Suc (Suc i)" by simp
  then have j: "?j < length xs" using Suc.prems by linarith
  have "mset (xs[Suc i := xs ! ?j, ?j := xs ! Suc i]) = mset xs"
    using Suc.prems j by (simp add: mset_swap)
  moreover have "i < length (xs[Suc i := xs ! ?j, ?j := xs ! Suc i])"
    using Suc.prems by simp
  ultimately show ?case
    using Suc.IH [of "xs[Suc i := xs ! ?j, ?j := xs ! Suc i]" "snd (draw g)"]
    by (simp add: Let_def)
qed

lemma np_shuffle_mset: "mset (fst (np_shuffle xs g)) = mset xs"
proof (cases xs)
  case Nil
  then show ?thesis by (simp add: np_shuffle_def)
next
  case (Cons x xs')
  then show ?thesis by (simp add: np_shuffle_def shuffle_steps_mset)
qed

lemma np_shuffle_set: "set (fst (np_shuffle xs g)) = set xs"
  using np_shuffle_mset [of xs g] by (rule mset_eq_setD)

lemma np_shuffle_length: "length (fst (np_shuffle xs g)) = length xs"
  using np_shuffle_mset [of xs g] by (rule mset_eq_length)

lemma np_shuffle_distinct: "distinct (fst (np_shuffle xs g)) = distinct xs"
  using np_shuffle_mset [of xs g] by (rule mset_eq_imp_distinct_iff)

lemma np_choice_props:
  "length (fst (np_choice n k g)) = min k n"
  "distinct (fst (np_choice n k g))"
  "set (fst (np_choice n k g)) \<subseteq> {..<n}"
proof -
  show "length (fst (np_choice n k g)) = min k n"
    by (simp add: np_choice_def np_shuffle_length min.commute)
  show "distinct (fst (np_choice n k g))"
    by (simp add: np_choice_def np_shuffle_distinct)
  have "set (take k (fst (np_shuffle [0..<n] g))) \<subseteq> set (fst (np_shuffle [0..<n] g))"
    by (rule set_take_subset)
  then show "set (fst (np_choice n k g)) \<subseteq> {..<n}"
    by (auto simp: np_choice_def np_shuffle_set)
qed

lemma mem_sample_props:
  "length (fst (mem_sample r k g)) = min k r"
  "distinct (fst (mem_sample r k g))"
  "set (fst (mem_sample r k g)) \<subseteq> {..<r}"
  "r \<le> k \<Longrightarrow> fst (mem_sample r k g) = [0..<r]"
  by (auto simp: mem_sample_def np_choice_props dest: subsetD [OF np_choice_props(3)])

section \<open>The loss check (C1)\<close>

text \<open>
  C1, as the code has it: the loop body ends with \<open>math.isnan(loss)\<close>, so it is a NaN loss
  that ends the process. If the execution reaches iteration \<open>iters\<close> of task \<open>task\<close> of run
  \<open>runid\<close> and the strategy's branch returns a NaN loss there, \<open>train_task_sequence\<close> as a
  whole ends with \<open>sys.exit(0)\<close> in the very state that branch left: nothing is executed
  after the offending iteration, in this task, in later tasks or in later runs.
\<close>

theorem nan_loss_exits:
  assumes runs_before:
      "for_loop (one_run en a mdl) [0..<runid]
         (s0\<lparr>runs := [], loss := None, phi_hat_bound := False\<rparr>) = Inr sr"
    and run_ix: "runid < num_runs a"
    and run_start: "begin_run en a mdl runid sr = Inr (sb, ds)"
    and tasks_before: "run_tasks en a mdl ds [0..<task] sb = Inr st"
    and task_ix: "task < length ds"
    and task_start: "begin_task a ds task st = (s1, train_xy)"
    and batch_ok: "\<not> (train_single_epoch a \<and> batch_size a = 0)"
    and iters_before:
      "train_loop en a mdl ds (mem_size a * num_tasks mdl * TOTAL_CLASSES) task train_xy
         [0..<iters] s1 = Inr s"
    and iter_ix: "iters < num_iters_of a (length train_xy)"
    and step:
      "iter_step en a mdl ds (mem_size a * num_tasks mdl * TOTAL_CLASSES) task train_xy
         iters s = Inr s2"
    and nan: "loss s2 = Some NaN"
  shows "train_task_sequence en a mdl s0 = Inl (SystemExit 0, s2)"
proof -
  let ?ems = "mem_size a * num_tasks mdl * TOTAL_CLASSES"
  have it: "train_iter en a mdl ds ?ems task train_xy iters s = Inl (SystemExit 0, s2)"
    using step nan by (simp add: train_iter_def check_loss_def isnan_def)
  have lp: "train_loop en a mdl ds ?ems task train_xy [0..<num_iters_of a (length train_xy)] s1
              = Inl (SystemExit 0, s2)"
    unfolding train_loop_def
    using iters_before it iter_ix by (intro for_loop_abort_at) (simp_all add: train_loop_def)
  have tk: "train_task en a mdl ds ?ems task st = Inl (SystemExit 0, s2)"
    using lp task_start batch_ok by (simp add: train_task_def Let_def)
  have rt: "run_tasks en a mdl ds [0..<length ds] sb = Inl (SystemExit 0, s2)"
    unfolding run_tasks_def
    using tasks_before tk task_ix by (intro for_loop_abort_at) (simp_all add: run_tasks_def)
  have rn: "one_run en a mdl runid sr = Inl (SystemExit 0, s2)"
    using rt run_start by (simp add: one_run_def Let_def)
  show ?thesis
    unfolding train_task_sequence_def
    using runs_before rn run_ix by (intro for_loop_abort_at)
qed

text \<open>
  A run of the plain strategy whose first training step returns NaN: the process exits
  after that step, although \<open>train_iters = 2\<close>.
\<close>

theorem nan_loss_exits_witness:
  "isl (train_task_sequence (ex_env NaN) ex_args (ex_model ''VAN'') init_state)
   \<and> trace (final (train_task_sequence (ex_env NaN) ex_args (ex_model ''VAN'') init_state)) =
       [RandomSeed 1234, ConstructPermuteMnist 1, GlobalVariablesInitializer, InitUpdates,
        SessRun [''train'', ''reg_loss''] (Feed [(flat_image 1, class0)])]"
proof -
  let ?en = "ex_env NaN" and ?m = "ex_model ''VAN''"
  let ?sr = "init_state\<lparr>runs := [], loss := None, phi_hat_bound := False\<rparr>"
  let ?sb = "fst (projr (begin_run ?en ex_args ?m 0 ?sr))"
  let ?s1 = "fst (begin_task ex_args [ex_task] 0 ?sb)"
  let ?tr = "[(flat_image 1, class0), (flat_image 0, class0)]"
  let ?s2 = "final (iter_step ?en ex_args ?m [ex_task] 10 0 ?tr 0 ?s1)"
  have ems: "mem_size ex_args * num_tasks ?m * TOTAL_CLASSES = 10"
    by (simp add: ex_defs TOTAL_CLASSES_def)
  have h1: "for_loop (one_run ?en ex_args ?m) [0..<0] ?sr = Inr ?sr" by simp
  have h2: "0 < num_runs ex_args" by (simp add: ex_defs)
  have h3: "begin_run ?en ex_args ?m 0 ?sr = Inr (?sb, [ex_task])"
    by (simp add: begin_run_def ex_env_def ex_model_def ex_args_def Let_def)
  have h4: "run_tasks ?en ex_args ?m [ex_task] [0..<0] ?sb = Inr ?sb"
    by (simp add: run_tasks_def)
  have h5: "0 < length [ex_task]" by simp
  have h6: "begin_task ex_args [ex_task] 0 ?sb = (?s1, ?tr)"
    by (simp add: begin_task_def ex_task_def ex_args_def Let_def np_shuffle_def draw_def
          begin_run_def ex_env_def init_memory_def emit_def ex_model_def
          use_episodic_memory_def)
  have h7: "\<not> (train_single_epoch ex_args \<and> batch_size ex_args = 0)"
    by (simp add: ex_defs)
  have h8: "train_loop ?en ex_args ?m [ex_task]
              (mem_size ex_args * num_tasks ?m * TOTAL_CLASSES) 0 ?tr [0..<0] ?s1 = Inr ?s1"
    by (simp add: train_loop_def)
  have h9: "0 < num_iters_of ex_args (length ?tr)"
    by (simp add: num_iters_of_def ex_defs)
  have h10: "iter_step ?en ex_args ?m [ex_task]
               (mem_size ex_args * num_tasks ?m * TOTAL_CLASSES) 0 ?tr 0 ?s1 = Inr ?s2"
    by (simp add: ems iter_step_def strategy_step_def ex_model_def Let_def snapshot_due_def
          ex_args_def)
  have h11: "loss ?s2 = Some NaN"
    by (simp add: iter_step_def strategy_step_def ex_model_def Let_def step_van_def
          run_loss_def ex_env_def snapshot_due_def ex_args_def)
  have exits: "train_task_sequence ?en ex_args ?m init_state = Inl (SystemExit 0, ?s2)"
    by (rule nan_loss_exits [OF h1 h2 h3 h4 h5 h6 h7 h8 h9 h10 h11])
  have "trace ?s2 =
       [RandomSeed 1234, ConstructPermuteMnist 1, GlobalVariablesInitializer, InitUpdates,
        SessRun [''train'', ''reg_loss''] (Feed [(flat_image 1, class0)])]"
    by (simp add: ex_defs run_defs op_defs step_van_def init_state_def Let_def
          offset_of_def residual_of_def feed_batch_def realized_batch_def)
  then show ?thesis
    by (simp add: exits)
qed

text \<open>
  C1 as stated fails for an infinite loss: the same run with a loss of \<open>+inf\<close> in every
  step, which is not finite, executes the second iteration and completes the task.
\<close>

theorem infinite_loss_continues:
  "\<not> isfinite (fetch_loss (ex_env PInf)
       [RandomSeed 1234, ConstructPermuteMnist 1, GlobalVariablesInitializer, InitUpdates,
        SessRun [''train'', ''reg_loss''] (Feed [(flat_image 1, class0)])])
   \<and> trace (final (train_task_sequence (ex_env PInf) ex_args (ex_model ''VAN'') init_state)) =
       [RandomSeed 1234, ConstructPermuteMnist 1, GlobalVariablesInitializer, InitUpdates,
        SessRun [''train'', ''reg_loss''] (Feed [(flat_image 1, class0)]),
        SessRun [''train'', ''reg_loss''] (Feed [(flat_image 0, class0)]),
        AccuracyEval [], ResetOptimizer]"
  by (simp add: all_defs)

section \<open>Configuration errors (C8)\<close>

text \<open>
  C8: an architecture, strategy or optimizer name outside the valid lists makes \<open>main\<close>
  raise ValueError with nothing logged: no directory, no graph, no model, no run.
\<close>

theorem invalid_configuration_is_fatal:
  assumes "arch a \<notin> set VALID_ARCHS \<or> imp_method a \<notin> set MODELS
           \<or> optim a \<notin> set VALID_OPTIMS"
  shows "(\<exists>msg. main en a = Inl (ValueError msg, init_state))
         \<and> trace (final (main en a)) = []"
  using assms by (auto simp: main_def init_state_def)

theorem invalid_configuration_witness:
  "(\<exists>msg. main (ex_env NaN) (ex_args\<lparr>optim := ''RMSPROP''\<rparr>) =
            Inl (ValueError msg, init_state))
   \<and> trace (final (main (ex_env NaN) (ex_args\<lparr>optim := ''RMSPROP''\<rparr>))) = []"
  using invalid_configuration_is_fatal [of "ex_args\<lparr>optim := ''RMSPROP''\<rparr>" "ex_env NaN"]
  by (simp add: ex_args_def VALID_OPTIMS_def)

text \<open>
  With valid names the same \<open>main\<close> builds the model and starts the first run (which,
  with these collaborators, ends at its first NaN loss).
\<close>

lemma valid_configuration_runs:
  "trace (final (main (ex_env NaN) ex_args)) =
     [SnapshotExperimentMetaData, ResetDefaultGraph, SetRandomSeed 1234,
      BuildOptimizer ''SGD'', BuildModel ''VAN'' 3 ''FC-S'', RandomSeed 1234,
      ConstructPermuteMnist 3, GlobalVariablesInitializer, InitUpdates,
      SessRun [''train'', ''reg_loss''] (Feed [(flat_image 1, class0)])]"
  by (simp add: main_def build_model_def VALID_ARCHS_def MODELS_def VALID_OPTIMS_def
        K_FOR_CROSS_VAL_def all_defs)

section \<open>The snapshot schedule (C9)\<close>

lemma snapshot_due_iff:
  "snapshot_due a i \<longleftrightarrow>
     train_single_epoch a \<and> \<not> cross_validate_mode a
     \<and> i \<in> {0..9} \<union> {k. k < 100 \<and> 10 dvd k} \<union> {k. 100 dvd k}"
  by (auto simp: snapshot_due_def)

text \<open>
  C9: iteration \<open>iters\<close> appends exactly one snapshot to \<open>ftask\<close> when the run is in
  single-epoch mode outside cross-validation and \<open>iters\<close> is below 10, a multiple of 10
  below 100 or a multiple of 100; in every other case it appends none. This holds however
  the iteration ends.
\<close>

theorem snapshot_schedule:
  "ftask (final (train_iter en a mdl ds ems task tr iters s)) =
     ftask s @
       (if train_single_epoch a \<and> \<not> cross_validate_mode a
           \<and> iters \<in> {0..9} \<union> {k. k < 100 \<and> 10 dvd k} \<union> {k. 100 dvd k}
        then [fst (test_task_sequence en ds s)] else [])"
proof -
  let ?s1 = "if snapshot_due a iters then take_snapshot en ds s else s"
  have "ftask (final (iter_step en a mdl ds ems task tr iters s)) = ftask ?s1"
    by (simp add: iter_step_def Let_def strategy_step_ftask)
  moreover have "ftask ?s1 =
      ftask s @ (if snapshot_due a iters then [fst (test_task_sequence en ds s)] else [])"
    by (simp add: take_snapshot_state)
  ultimately show ?thesis
    by (simp only: final_train_iter snapshot_due_iff)
qed

theorem snapshot_schedule_witness:
  "ftask (final (train_iter (ex_env (Fin 0)) (ex_args\<lparr>train_single_epoch := True\<rparr>)
        (ex_model ''VAN'') [ex_task] 10 0 [(flat_image 0, class0)] 20 init_state)) = [[0]]
   \<and> ftask (final (train_iter (ex_env (Fin 0)) (ex_args\<lparr>train_single_epoch := True\<rparr>)
        (ex_model ''VAN'') [ex_task] 10 0 [(flat_image 0, class0)] 15 init_state)) = []"
  using snapshot_schedule [of "ex_env (Fin 0)" "ex_args\<lparr>train_single_epoch := True\<rparr>"
          "ex_model ''VAN''" "[ex_task]" 10 0 "[(flat_image 0, class0)]" 20 init_state]
        snapshot_schedule [of "ex_env (Fin 0)" "ex_args\<lparr>train_single_epoch := True\<rparr>"
          "ex_model ''VAN''" "[ex_task]" 10 0 "[(flat_image 0, class0)]" 15 init_state]
  by (simp add: ex_defs init_state_def test_task_sequence_def emit_def)

section \<open>A-GEM: reference gradient, step, buffer (C7)\<close>

text \<open>
  C7: under A-GEM, whatever the task and the iteration, the events of one iteration are, in
  this order: the snapshot when one is due; in task 0 the plain step, in every later task
  \<open>store_ref_grads\<close>, fed with the rows that the episodic arrays hold before the
  iteration at the sampled indices (\<open>episodic_images[mem_sample_mask]\<close> and
  \<open>episodic_labels[mem_sample_mask]\<close>), and then the projected step; last the FIFO
  update with the realized batch, whose effect on the episodic arrays is that of
  \<open>update_fifo_buffer\<close>. The sampled indices are \<open>min(eps_mem_batch,
  episodic_filled_counter)\<close> many, distinct and below the counter. The training split
  must not be empty (the offset is taken modulo its size).
\<close>

theorem agem_reference_gradient_first:
  assumes "model_imp_method mdl = ''A-GEM''" and "train_xy \<noteq> []"
  shows "trace (final (train_iter en a mdl ds ems task train_xy iters s)) =
           trace s
           @ (if snapshot_due a iters then map (\<lambda>d. AccuracyEval (test_set d)) ds else [])
           @ (if task = 0
              then [SessRun [''train_first_task'', ''agem_loss'']
                      (Feed (feed_batch a train_xy iters))]
              else [SessRun [''store_ref_grads'']
                      (Feed (map (\<lambda>i. (episodic_images s i, episodic_labels s i))
                         (fst (mem_sample (episodic_filled_counter s) (eps_mem_batch a) (rng s))))),
                    SessRun [''train_subseq_tasks'', ''agem_loss'']
                      (Feed (feed_batch a train_xy iters))])
           @ [UpdateFifoBuffer ''episodic_images'' (realized_batch a train_xy iters) (mem_size a)
                (episodic_filled_counter s)]
         \<and> length (fst (mem_sample (episodic_filled_counter s) (eps_mem_batch a) (rng s))) =
             min (eps_mem_batch a) (episodic_filled_counter s)
         \<and> distinct (fst (mem_sample (episodic_filled_counter s) (eps_mem_batch a) (rng s)))
         \<and> set (fst (mem_sample (episodic_filled_counter s) (eps_mem_batch a) (rng s)))
             \<subseteq> {..<episodic_filled_counter s}
         \<and> (episodic_images (final (train_iter en a mdl ds ems task train_xy iters s)),
            episodic_labels (final (train_iter en a mdl ds ems task train_xy iters s)),
            count_cls (final (train_iter en a mdl ds ems task train_xy iters s))) =
           update_fifo_buffer (realized_batch a train_xy iters) (episodic_images s)
             (episodic_labels s) [0..<TOTAL_CLASSES] (mem_size a) (count_cls s)
             (episodic_filled_counter s)"
  using assms
  by (simp add: final_train_iter iter_step_def strategy_step_def step_agem_def op_defs
        take_snapshot_state mem_examples_def Let_def mem_sample_props)

text \<open>
  The first iteration of task 1 of an A-GEM run in which task 0 has stored one example:
  the counter is 10, all ten reserved slots are sampled, and \<open>store_ref_grads\<close> is fed
  the stored example followed by the nine slots that were never written.
\<close>

theorem agem_reference_gradient_first_witness:
  "trace (final (train_iter (ex_env (Fin 0)) ex_agem_args ex_agem_model [ex_task, ex_task] 20 1
      [(flat_image 1, class0), (flat_image 0, class0)] 0
      (fst (begin_task ex_agem_args [ex_task, ex_task] 1
         (final (run_tasks (ex_env (Fin 0)) ex_agem_args ex_agem_model [ex_task, ex_task] [0..<1]
            (fst (projr (begin_run (ex_env (Fin 0)) ex_agem_args ex_agem_model 0
               init_state))))))))) =
     [RandomSeed 1234, ConstructPermuteMnist 2, GlobalVariablesInitializer, InitUpdates,
      SessRun [''train_first_task'', ''agem_loss''] (Feed [(flat_image 1, class0)]),
      UpdateFifoBuffer ''episodic_images'' [(flat_image 1, class0)] 1 0,
      TaskUpdates 0, AccuracyEval [], AccuracyEval [], ResetOptimizer,
      Restore,
      SessRun [''store_ref_grads'']
        (Feed [(flat_image 1, class0), zero_row, zero_row, zero_row, zero_row, zero_row,
               zero_row, zero_row, zero_row, zero_row]),
      SessRun [''train_subseq_tasks'', ''agem_loss''] (Feed [(flat_image 1, class0)]),
      UpdateFifoBuffer ''episodic_images'' [(flat_image 1, class0)] 1 10]"
proof -
  let ?en = "ex_env (Fin 0)" and ?ds = "[ex_task, ex_task]"
  define s1 where "s1 = fst (begin_task ex_agem_args ?ds 1
      (final (run_tasks ?en ex_agem_args ex_agem_model ?ds [0..<1]
         (fst (projr (begin_run ?en ex_agem_args ex_agem_model 0 init_state))))))"
  have tr: "trace s1 =
     [RandomSeed 1234, ConstructPermuteMnist 2, GlobalVariablesInitializer, InitUpdates,
      SessRun [''train_first_task'', ''agem_loss''] (Feed [(flat_image 1, class0)]),
      UpdateFifoBuffer ''episodic_images'' [(flat_image 1, class0)] 1 0,
      TaskUpdates 0, AccuracyEval [], AccuracyEval [], ResetOptimizer, Restore]"
    by (simp add: s1_def all_defs ex_agem_args_def ex_agem_model_def)
  have c: "episodic_filled_counter s1 = 10"
    by (simp add: s1_def all_defs ex_agem_args_def ex_agem_model_def TOTAL_CLASSES_def)
  have m: "map (\<lambda>i. (episodic_images s1 i, episodic_labels s1 i)) [0..<10] =
     [(flat_image 1, class0), zero_row, zero_row, zero_row, zero_row, zero_row,
               zero_row, zero_row, zero_row, zero_row]"
    by (simp add: s1_def all_defs ex_agem_args_def ex_agem_model_def zero_row_def
          update_fifo_buffer_def fifo_offer_def label_class_def class0_def TOTAL_CLASSES_def)
  have sd: "\<not> snapshot_due ex_agem_args 0"
    by (simp add: snapshot_due_def ex_agem_args_def ex_args_def)
  have fb: "feed_batch ex_agem_args [(flat_image 1, class0), (flat_image 0, class0)] 0 =
              [(flat_image 1, class0)]"
    by (simp add: feed_batch_def offset_of_def py_slice_def ex_agem_args_def ex_args_def)
  have rb: "realized_batch ex_agem_args [(flat_image 1, class0), (flat_image 0, class0)] 0 =
              [(flat_image 1, class0)]"
    by (simp add: realized_batch_def offset_of_def residual_of_def py_slice_def
          ex_agem_args_def ex_args_def)
  have k: "eps_mem_batch ex_agem_args = 10" "mem_size ex_agem_args = 1"
    by (simp_all add: ex_agem_args_def ex_args_def)
  have h1: "model_imp_method ex_agem_model = ''A-GEM''" by (simp add: ex_agem_model_def)
  have h2: "[(flat_image 1, class0), (flat_image 0, class0)] \<noteq> []" by simp
  have "trace (final (train_iter ?en ex_agem_args ex_agem_model ?ds 20 1
      [(flat_image 1, class0), (flat_image 0, class0)] 0 s1)) =
     [RandomSeed 1234, ConstructPermuteMnist 2, GlobalVariablesInitializer, InitUpdates,
      SessRun [''train_first_task'', ''agem_loss''] (Feed [(flat_image 1, class0)]),
      UpdateFifoBuffer ''episodic_images'' [(flat_image 1, class0)] 1 0,
      TaskUpdates 0, AccuracyEval [], AccuracyEval [], ResetOptimizer,
      Restore,
      SessRun [''store_ref_grads'']
        (Feed [(flat_image 1, class0), zero_row, zero_row, zero_row, zero_row, zero_row,
               zero_row, zero_row, zero_row, zero_row]),
      SessRun [''train_subseq_tasks'', ''agem_loss''] (Feed [(flat_image 1, class0)]),
      UpdateFifoBuffer ''episodic_images'' [(flat_image 1, class0)] 1 10]"
    using agem_reference_gradient_first [OF h1 h2, of ?en ex_agem_args ?ds 20 1 0 s1]
    by (simp add: tr c m sd fb rb k mem_sample_def)
  then show ?thesis by (simp only: s1_def)
qed

section \<open>Memory samples (C4)\<close>

text \<open>
  C4, as the code has it. The number \<open>r\<close> from which a memory sample is requested is
  the fill level that the loop tracks, not the number of examples that the arrays hold:
  \<open>episodic_filled_counter\<close> under A-GEM, \<open>mem_filled_so_far\<close> of that counter (its
  minimum with \<open>episodic_mem_size\<close>) under ER-Ring and ER-Hindsight-Anchors, and
  \<open>mem_filled_so_far\<close> of \<open>examples_seen_so_far\<close> under ER-Reservoir and MER. In each
  case the indices are \<open>min(k, r)\<close> many, distinct and below \<open>r\<close>. When \<open>r \<le> k\<close>
  they are all of \<open>0, ..., r - 1\<close>: in index order for A-GEM and the ring strategies, in
  the order \<open>np.random.shuffle\<close> leaves them for ER-Reservoir and MER.
\<close>

theorem memory_sample_indices:
  "(let idx = fst (mem_sample (episodic_filled_counter s) (eps_mem_batch a) g);
        r = episodic_filled_counter s
    in length idx = min (eps_mem_batch a) r \<and> distinct idx \<and> set idx \<subseteq> {..<r}
       \<and> (r \<le> eps_mem_batch a \<longrightarrow> idx = [0..<r]))
   \<and> (let idx = fst (ring_mem_indices a ems s g);
          r = mem_filled_so_far (episodic_filled_counter s) ems
      in length idx = min (eps_mem_batch a) r \<and> distinct idx \<and> set idx \<subseteq> {..<r}
         \<and> (r \<le> eps_mem_batch a \<longrightarrow> idx = [0..<r]))
   \<and> (let idx = fst (reservoir_mem_indices a ems s);
          r = mem_filled_so_far (examples_seen_so_far s) ems
      in length idx = min (eps_mem_batch a) r \<and> distinct idx \<and> set idx \<subseteq> {..<r}
         \<and> (r \<le> eps_mem_batch a \<longrightarrow> set idx = {..<r}))"
proof -
  have "\<And>r k g. r \<le> k \<Longrightarrow> set (fst (np_shuffle (fst (mem_sample r k g)) (snd (mem_sample r k g)))) = {..<r}"
    by (simp add: np_shuffle_set mem_sample_props(4) lessThan_atLeast0)
  then show ?thesis
    by (simp add: Let_def ring_mem_indices_def reservoir_mem_indices_def mem_sample_props
          np_shuffle_length np_shuffle_distinct np_shuffle_set)
qed

text \<open>
  Three states that runs reach: the start of task 1 under A-GEM (counter 10, batch 10) and
  under ER-Ring (counter 10, batch 1), and ER-Reservoir after two iterations (two examples
  seen, batch 2).
\<close>

theorem memory_sample_indices_witness:
  "fst (mem_sample
         (episodic_filled_counter
            (fst (begin_task ex_agem_args [ex_task, ex_task] 1
               (final (run_tasks (ex_env (Fin 0)) ex_agem_args ex_agem_model [ex_task, ex_task]
                  [0..<1]
                  (fst (projr (begin_run (ex_env (Fin 0)) ex_agem_args ex_agem_model 0
                     init_state))))))))
         (eps_mem_batch ex_agem_args) (\<lambda>n. 0)) = [0..<10]
   \<and> length (fst (ring_mem_indices ex_args 20
        (fst (begin_task ex_args [ex_task, ex_task] 1
           (final (run_tasks (ex_env (Fin 0)) ex_args ex_ring_model [ex_task, ex_task] [0..<1]
              (fst (projr (begin_run (ex_env (Fin 0)) ex_args ex_ring_model 0 init_state)))))))
        (\<lambda>n. 0))) = 1
   \<and> set (fst (reservoir_mem_indices ex_reservoir_args 10
        (final (train_loop (ex_env (Fin 0)) ex_reservoir_args (ex_model ''ER-Reservoir'')
           [ex_task] 10 0 [(flat_image 1, class0), (flat_image 0, class0)] [0..<2]
           (fst (begin_task ex_reservoir_args [ex_task] 0
              (fst (projr (begin_run (ex_env (Fin 0)) ex_reservoir_args
                 (ex_model ''ER-Reservoir'') 0 init_state))))))))) = {..<2}"
proof -
  let ?en = "ex_env (Fin 0)" and ?ds = "[ex_task, ex_task]"
  define sa where "sa = fst (begin_task ex_agem_args ?ds 1
      (final (run_tasks ?en ex_agem_args ex_agem_model ?ds [0..<1]
         (fst (projr (begin_run ?en ex_agem_args ex_agem_model 0 init_state))))))"
  define sr where "sr = fst (begin_task ex_args ?ds 1
      (final (run_tasks ?en ex_args ex_ring_model ?ds [0..<1]
         (fst (projr (begin_run ?en ex_args ex_ring_model 0 init_state))))))"
  define sv where "sv = final (train_loop ?en ex_reservoir_args (ex_model ''ER-Reservoir'')
      [ex_task] 10 0 [(flat_image 1, class0), (flat_image 0, class0)] [0..<2]
      (fst (begin_task ex_reservoir_args [ex_task] 0
         (fst (projr (begin_run ?en ex_reservoir_args (ex_model ''ER-Reservoir'') 0
            init_state))))))"
  have ca: "episodic_filled_counter sa = 10" unfolding sa_def by code_simp
  have cr: "episodic_filled_counter sr = 10" unfolding sr_def by code_simp
  have cv: "examples_seen_so_far sv = 2" unfolding sv_def by code_simp
  have k: "eps_mem_batch ex_agem_args = 10" "eps_mem_batch ex_args = 1"
      "eps_mem_batch ex_reservoir_args = 2"
    by (simp_all add: ex_agem_args_def ex_reservoir_args_def ex_args_def)
  have "fst (mem_sample (episodic_filled_counter sa) (eps_mem_batch ex_agem_args) (\<lambda>n. 0))
          = [0..<10]
        \<and> length (fst (ring_mem_indices ex_args 20 sr (\<lambda>n. 0))) = 1
        \<and> set (fst (reservoir_mem_indices ex_reservoir_args 10 sv)) = {..<2}"
    using memory_sample_indices [of sa ex_agem_args "\<lambda>n. 0" 20]
      memory_sample_indices [of sr ex_args "\<lambda>n. 0" 20]
      memory_sample_indices [of sv ex_reservoir_args "\<lambda>n. 0" 10]
    by (simp add: Let_def ca cr cv k mem_filled_so_far_def)
  then show ?thesis by (simp only: sa_def sr_def sv_def)
qed

text \<open>
  C4 as stated fails in two ways. Under ER-Reservoir, in the third iteration two examples
  are resident and two are requested, and the memory part of the batch is slot 1 followed
  by slot 0. Under ER-Ring, in the second iteration of task 0 one example is resident (slot
  0, written by the first iteration) and one is requested, yet the sample is empty and the
  step is fed the current batch alone: the counter is 0 until the task ends.
\<close>

theorem sample_is_shuffled_or_ignores_residents:
  "mem_filled_so_far 2 10 \<le> eps_mem_batch ex_reservoir_args
   \<and> trace (final (train_task_sequence (ex_env (Fin 0)) ex_reservoir_args
        (ex_model ''ER-Reservoir'') init_state)) =
       [RandomSeed 1234, ConstructPermuteMnist 1, GlobalVariablesInitializer, InitUpdates,
        SessRun [''train'', ''reg_loss''] (Feed [(flat_image 1, class0)]),
        UpdateReservior [(flat_image 1, class0)] 10 0,
        SessRun [''train'', ''reg_loss''] (Feed [(flat_image 1, class0), (flat_image 0, class0)]),
        UpdateReservior [(flat_image 0, class0)] 10 1,
        SessRun [''train'', ''reg_loss'']
          (Feed [(flat_image 0, class0), (flat_image 1, class0), (flat_image 1, class0)]),
        UpdateReservior [(flat_image 1, class0)] 10 2,
        AccuracyEval [], ResetOptimizer]
   \<and> episodic_images (final (train_task_sequence (ex_env (Fin 0)) ex_reservoir_args
        (ex_model ''ER-Reservoir'') init_state)) 0 = flat_image 1
   \<and> episodic_images (final (train_task_sequence (ex_env (Fin 0)) ex_reservoir_args
        (ex_model ''ER-Reservoir'') init_state)) 1 = flat_image 0
   \<and> trace (final (train_task_sequence (ex_env (Fin 0)) ex_args (ex_model ''ER-Ring'')
        init_state)) =
       [RandomSeed 1234, ConstructPermuteMnist 1, GlobalVariablesInitializer, InitUpdates,
        SessRun [''train'', ''reg_loss''] (Feed [(flat_image 1, class0)]),
        UpdateFifoBuffer ''episodic_images'' [(flat_image 1, class0)] 1 0,
        SessRun [''train'', ''reg_loss''] (Feed [(flat_image 0, class0)]),
        UpdateFifoBuffer ''episodic_images'' [(flat_image 0, class0)] 1 0,
        AccuracyEval [], ResetOptimizer]
   \<and> episodic_images
        (final (train_loop (ex_env (Fin 0)) ex_args (ex_model ''ER-Ring'') [ex_task] 10 0
           [(flat_image 1, class0), (flat_image 0, class0)] [0..<1]
           (fst (begin_task ex_args [ex_task] 0
              (fst (projr (begin_run (ex_env (Fin 0)) ex_args (ex_model ''ER-Ring'') 0
                 init_state))))))) 0 = flat_image 1
   \<and> eps_mem_batch ex_args = 1
   \<and> fst (ring_mem_indices ex_args 10
        (final (train_loop (ex_env (Fin 0)) ex_args (ex_model ''ER-Ring'') [ex_task] 10 0
           [(flat_image 1, class0), (flat_image 0, class0)] [0..<1]
           (fst (begin_task ex_args [ex_task] 0
              (fst (projr (begin_run (ex_env (Fin 0)) ex_args (ex_model ''ER-Ring'') 0
                 init_state)))))))
        (\<lambda>n. 0)) = []"
  by (simp add: all_defs ex_reservoir_args_def mem_filled_so_far_def mem_sample_def
        reservoir_mem_indices_def ring_mem_indices_def mem_examples_def update_reservior_def
        reservoir_offer_def update_fifo_buffer_def fifo_offer_def label_class_def class0_def
        TOTAL_CLASSES_def)

section \<open>Anchor normalisation (C3)\<close>

lemma float_overflow_pos: "1 < FLOAT_OVERFLOW"
proof -
  have "(2::real) ^ 970 * 2 \<le> 2 ^ 970 * 2 ^ 54" by (intro mult_left_mono) simp_all
  then have "(2::real) ^ 971 \<le> 2 ^ 1024" by (simp add: power_add [symmetric])
  moreover have "(1::real) < 2 ^ 970" by simp
  moreover have "(2::real) ^ 971 = 2 ^ 970 + 2 ^ 970" by simp
  ultimately show ?thesis by (simp add: FLOAT_OVERFLOW_def)
qed

lemma to_float_small: "0 \<le> x \<Longrightarrow> x < FLOAT_OVERFLOW \<Longrightarrow> to_float x = Fin x"
  using float_overflow_pos by (simp add: to_float_def)

text \<open>A constant row is 0/0 in every entry.\<close>

lemma normalize_row_constant:
  assumes "a \<noteq> []" and "\<forall>x\<in>set a. x = c"
  shows "normalize_row a = Inr (map (\<lambda>x. NaN) a)"
proof -
  have "set a = {c}" using assms by (cases a) auto
  moreover have "to_float 0 = Fin 0" using float_overflow_pos by (simp add: to_float_small)
  ultimately show ?thesis using assms by (simp add: normalize_row_def fsub_def)
qed

text \<open>
  A row that is not constant and whose range does not overflow is mapped onto \<open>[0, 1]\<close>
  with both ends attained (in exact arithmetic: the rounding of the quotients is not
  modelled).
\<close>

lemma normalize_row_range:
  assumes "a \<noteq> []" and "Min (set a) < Max (set a)"
    and "Max (set a) - Min (set a) < FLOAT_OVERFLOW"
  shows "\<exists>r. normalize_row a = Inr r \<and> Fin 0 \<in> set r \<and> Fin 1 \<in> set r
           \<and> list_all (\<lambda>y. \<exists>v. y = Fin v \<and> 0 \<le> v \<and> v \<le> 1) r"
proof -
  let ?lo = "Min (set a)" and ?hi = "Max (set a)"
  let ?r = "map (\<lambda>x. Fin ((x - ?lo) / (?hi - ?lo))) a"
  have d: "0 < ?hi - ?lo" using assms(2) by simp
  have q: "\<And>x. x \<in> set a \<Longrightarrow> 0 \<le> (x - ?lo) / (?hi - ?lo) \<and> (x - ?lo) / (?hi - ?lo) \<le> 1"
  proof -
    fix x assume x: "x \<in> set a"
    have "?lo \<le> x" "x \<le> ?hi" using x by simp_all
    then show "0 \<le> (x - ?lo) / (?hi - ?lo) \<and> (x - ?lo) / (?hi - ?lo) \<le> 1"
      using d by (simp add: field_simps)
  qed
  have den: "fsub ?hi ?lo = Fin (?hi - ?lo)"
    using d assms(3) by (simp add: fsub_def to_float_small)
  have e: "\<And>x. x \<in> set a \<Longrightarrow> fdiv (fsub x ?lo) (fsub ?hi ?lo) = Fin ((x - ?lo) / (?hi - ?lo))"
  proof -
    fix x assume x: "x \<in> set a"
    have "?lo \<le> x" "x \<le> ?hi" using x by simp_all
    then have "fsub x ?lo = Fin (x - ?lo)"
      using assms(3) by (simp add: fsub_def to_float_small)
    moreover have "to_float ((x - ?lo) / (?hi - ?lo)) = Fin ((x - ?lo) / (?hi - ?lo))"
      using q [OF x] float_overflow_pos by (intro to_float_small) simp_all
    ultimately show "fdiv (fsub x ?lo) (fsub ?hi ?lo) = Fin ((x - ?lo) / (?hi - ?lo))"
      using d by (simp add: den)
  qed
  have r: "normalize_row a = Inr ?r"
    using assms(1) e by (simp add: normalize_row_def)
  have "?lo \<in> set a" using assms(1) by simp
  then have "\<exists>x\<in>set a. (x - ?lo) / (?hi - ?lo) = 0" by (intro bexI [of _ ?lo]) simp_all
  then have z: "Fin 0 \<in> set ?r" by (auto simp: image_iff)
  have "?hi \<in> set a" using assms(1) by simp
  then have "\<exists>x\<in>set a. (x - ?lo) / (?hi - ?lo) = 1" using d by (intro bexI [of _ ?hi]) simp_all
  then have o: "Fin 1 \<in> set ?r" by (auto simp: image_iff)
  have "list_all (\<lambda>y. \<exists>v. y = Fin v \<and> 0 \<le> v \<and> v \<le> 1) ?r"
    using q by (simp add: list_all_iff)
  with r z o show ?thesis by blast
qed

text \<open>
  When the range of a row overflows, the divisor is an infinity: the largest entry becomes
  NaN and the row has no entry 1.
\<close>

lemma normalize_row_overflow:
  "normalize_row [- (2 ^ 1023), 2 ^ 1023] = Inr [Fin 0, NaN]"
proof -
  have z: "to_float 0 = Fin 0" using float_overflow_pos by (simp add: to_float_small)
  have "FLOAT_OVERFLOW \<le> 2 ^ 1024" by (simp add: FLOAT_OVERFLOW_def)
  moreover have "(2::real) ^ 1023 + 2 ^ 1023 = 2 ^ 1024" by simp
  ultimately have "FLOAT_OVERFLOW \<le> 2 ^ 1023 + 2 ^ 1023" by (simp only:)
  then have p: "to_float (2 ^ 1023 + 2 ^ 1023) = PInf" by (simp only: to_float_def if_True)
  have lo: "Min (set [- (2 ^ 1023), 2 ^ 1023 :: real]) = - (2 ^ 1023)" by simp
  have hi: "Max (set [- (2 ^ 1023), 2 ^ 1023 :: real]) = 2 ^ 1023" by simp
  have s1: "fsub (- (2 ^ 1023)) (- (2 ^ 1023)) = Fin 0" by (simp add: fsub_def z)
  have s2: "fsub (2 ^ 1023) (- (2 ^ 1023)) = PInf" using p by (simp only: fsub_def diff_minus_eq_add)
  show ?thesis
    unfolding normalize_row_def lo hi by (simp only: s1 s2 list.map fdiv.simps list.simps if_False)
qed
lemma normalize_tensors_replicate:
  "normalize_row a = Inr r \<Longrightarrow> normalize_tensors (replicate n a) = Inr (replicate n r)"
  by (induction n) simp_all

lemma flat_image_nonempty: "flat_image v \<noteq> []"
  by (simp add: flat_image_def INPUT_FEATURE_SIZE_def)

text \<open>
  C3 at the degenerate input: when the synthesised anchors are zero vectors (classes with
  no resident example), \<open>normalize_tensors\<close> divides 0 by 0 in every entry, and what is
  written into the anchor buffer for the task is a row of NaN, not the zero vector.
\<close>

theorem zero_anchor_becomes_nan:
  "normalize_tensors (replicate TOTAL_CLASSES (flat_image 0)) =
     Inr (replicate TOTAL_CLASSES (replicate INPUT_FEATURE_SIZE NaN))
   \<and> anchor_images (final (hindsight_hook ex_empty_class_env 1
        (init_state\<lparr>phi_hat_bound := True\<rparr>))) 10 = replicate INPUT_FEATURE_SIZE NaN"
proof -
  have row: "normalize_row (flat_image 0) = Inr (replicate INPUT_FEATURE_SIZE NaN)"
    using normalize_row_constant [OF flat_image_nonempty, of 0 0]
    by (simp add: flat_image_def map_replicate_const)
  have t: "normalize_tensors (replicate TOTAL_CLASSES (flat_image 0)) =
        Inr (replicate TOTAL_CLASSES (replicate INPUT_FEATURE_SIZE NaN))"
    using row by (rule normalize_tensors_replicate)
  show ?thesis
    by (simp add: t t [unfolded TOTAL_CLASSES_def] hindsight_hook_def ex_empty_class_env_def
          ex_env_def Let_def emit_def init_state_def write_rows_def TOTAL_CLASSES_def)
qed

section \<open>The restore at the start of a task (C6)\<close>

subsection \<open>Logs only grow, and only \<open>begin_task\<close> restores\<close>

lemma emits_only_refl: "emits_only Q s s"
  by (simp add: emits_only_def)

lemma emits_only_trans:
  "emits_only Q s t \<Longrightarrow> emits_only Q t u \<Longrightarrow> emits_only Q s u"
  by (auto simp: emits_only_def)

lemma mer_memory_steps_trace:
  "trace (mer_memory_steps en xs s) =
     trace s @ map (\<lambda>ex. SessRun [''train'', ''reg_loss''] (Feed [ex])) xs"
  by (induction xs arbitrary: s) (simp_all add: mer_memory_steps_def run_loss_def emit_def)

lemma strategy_step_emits:
  "emits_only (\<lambda>e. e \<noteq> Restore) s (final (strategy_step en a mdl ems task ac iters fb rb s))"
  by (simp add: emits_only_def strategy_step_def step_defs op_defs Let_def
        mer_memory_steps_trace list_all_iff image_iff)

lemma take_snapshot_emits: "emits_only (\<lambda>e. e \<noteq> Restore) s (take_snapshot en ds s)"
  by (simp add: emits_only_def take_snapshot_state list_all_iff image_iff)

lemma train_iter_emits:
  "emits_only (\<lambda>e. e \<noteq> Restore) s (final (train_iter en a mdl ds ems task tr iters s))"
proof -
  let ?s1 = "if snapshot_due a iters then take_snapshot en ds s else s"
  have 1: "emits_only (\<lambda>e. e \<noteq> Restore) s ?s1"
    by (simp add: take_snapshot_emits emits_only_refl)
  have 2: "emits_only (\<lambda>e. e \<noteq> Restore) ?s1 (final (iter_step en a mdl ds ems task tr iters s))"
    by (simp add: iter_step_def Let_def strategy_step_emits emits_only_refl)
  show ?thesis
    unfolding final_train_iter using 1 2 by (rule emits_only_trans)
qed

lemma for_loop_emits:
  assumes "\<And>i s. emits_only Q s (final (body i s))"
  shows "emits_only Q s (final (for_loop body is s))"
proof (induction "is" arbitrary: s)
  case Nil
  then show ?case by (simp add: emits_only_refl)
next
  case (Cons i "is")
  show ?case
  proof (cases "body i s")
    case (Inl e)
    then show ?thesis using assms [of s i] by simp
  next
    case (Inr s')
    have "emits_only Q s s'" using assms [of s i] Inr by simp
    moreover have "emits_only Q s' (final (for_loop body is s'))" by (rule Cons.IH)
    ultimately show ?thesis using Inr by (simp add: emits_only_trans)
  qed
qed

lemma finish_task_trace:
  "trace (finish_task en a mdl ds t s) =
     trace s @ (if t < length ds - 1 then [TaskUpdates t] else [])
       @ map (\<lambda>d. AccuracyEval (test_set d)) ds @ [ResetOptimizer]"
  by (simp add: finish_task_def Let_def test_task_sequence_state emit_def)

lemma hindsight_hook_emits:
  "emits_only (\<lambda>e. e \<noteq> Restore) s (final (hindsight_hook en t s))"
  by (simp add: emits_only_def hindsight_hook_def Let_def emit_def split: sum.split)

lemma after_loop_emits:
  "emits_only (\<lambda>e. e \<noteq> Restore) s (final (after_loop en a mdl ds t s))"
proof -
  have fin: "\<And>u. emits_only (\<lambda>e. e \<noteq> Restore) u (finish_task en a mdl ds t u)"
    by (auto simp: emits_only_def finish_task_trace list_all_iff)
  show ?thesis
  proof (cases "model_imp_method mdl = ''ER-Hindsight-Anchors''")
    case False
    then show ?thesis by (simp add: after_loop_def fin)
  next
    case True
    show ?thesis
    proof (cases "hindsight_hook en t s")
      case (Inl e)
      then show ?thesis using True hindsight_hook_emits [of s en t] by (simp add: after_loop_def)
    next
      case (Inr s1)
      then have "emits_only (\<lambda>e. e \<noteq> Restore) s s1" using hindsight_hook_emits [of s en t] by simp
      then show ?thesis using True Inr fin [of s1] by (simp add: after_loop_def emits_only_trans)
    qed
  qed
qed

lemma train_task_Inr_finish:
  assumes "train_task en a mdl ds ems t s = Inr s'"
  shows "\<exists>u. s' = finish_task en a mdl ds t u"
  using assms
  by (auto simp: train_task_def after_loop_def Let_def split: if_splits sum.splits)

text \<open>
  C6: whatever a task logs starts with \<open>model.restore\<close> exactly when the task is not the
  first, and contains no other restore: the restore precedes every training iteration of
  the task, and task 0 restores nothing. When task \<open>task - 1\<close> has completed, its log
  ends with \<open>model.task_updates\<close> for that task, the evaluation of all tasks and the
  optimizer reset, so the restore that opens the next task follows the inter-task update
  of the previous one with no training step in between.
\<close>

theorem restore_at_task_start:
  "(\<exists>rest. trace (final (train_task en a mdl ds ems task s)) =
             trace s @ (if 0 < task then [Restore] else []) @ rest
           \<and> list_all (\<lambda>e. e \<noteq> Restore) rest)
   \<and> (0 < task \<and> task < length ds \<and> train_task en a mdl ds ems (task - 1) s0 = Inr s \<longrightarrow>
        (\<exists>pre. trace s = pre @ TaskUpdates (task - 1)
                  # map (\<lambda>d. AccuracyEval (test_set d)) ds @ [ResetOptimizer]))"
proof
  let ?b = "begin_task a ds task s"
  have b: "trace (fst ?b) = trace s @ (if 0 < task then [Restore] else [])"
    by (simp add: begin_task_def Let_def emit_def)
  have "emits_only (\<lambda>e. e \<noteq> Restore) (fst ?b) (final (train_task en a mdl ds ems task s))"
  proof (cases "train_single_epoch a \<and> batch_size a = 0")
    case True
    then show ?thesis by (simp add: train_task_def Let_def emits_only_refl)
  next
    case False
    let ?l = "train_loop en a mdl ds ems task (snd ?b) [0..<num_iters_of a (length (snd ?b))] (fst ?b)"
    have l: "emits_only (\<lambda>e. e \<noteq> Restore) (fst ?b) (final ?l)"
      unfolding train_loop_def by (rule for_loop_emits) (rule train_iter_emits)
    have tt: "train_task en a mdl ds ems task s =
                (case ?l of Inl e \<Rightarrow> Inl e | Inr s1 \<Rightarrow> after_loop en a mdl ds task s1)"
      using False by (auto simp: train_task_def Let_def)
    show ?thesis
    proof (cases ?l)
      case (Inl e)
      then show ?thesis using l by (simp add: tt)
    next
      case (Inr s1)
      then show ?thesis using l after_loop_emits [of s1 en a mdl ds task]
        by (simp add: tt emits_only_trans)
    qed
  qed
  then show "\<exists>rest. trace (final (train_task en a mdl ds ems task s)) =
             trace s @ (if 0 < task then [Restore] else []) @ rest
           \<and> list_all (\<lambda>e. e \<noteq> Restore) rest"
    by (auto simp: emits_only_def b)
next
  show "0 < task \<and> task < length ds \<and> train_task en a mdl ds ems (task - 1) s0 = Inr s \<longrightarrow>
        (\<exists>pre. trace s = pre @ TaskUpdates (task - 1)
                  # map (\<lambda>d. AccuracyEval (test_set d)) ds @ [ResetOptimizer])"
  proof
    assume h: "0 < task \<and> task < length ds \<and> train_task en a mdl ds ems (task - 1) s0 = Inr s"
    then obtain u where "s = finish_task en a mdl ds (task - 1) u"
      using train_task_Inr_finish by blast
    moreover have "task - 1 < length ds - 1" using h by linarith
    ultimately show "\<exists>pre. trace s = pre @ TaskUpdates (task - 1)
                  # map (\<lambda>d. AccuracyEval (test_set d)) ds @ [ResetOptimizer]"
      by (simp add: finish_task_trace)
  qed
qed

theorem restore_at_task_start_witness:
  "(\<exists>rest. trace (final (train_task (ex_env (Fin 0)) ex_args (ex_model ''VAN'') [ex_task, ex_task] 20 1
        (final (train_task (ex_env (Fin 0)) ex_args (ex_model ''VAN'') [ex_task, ex_task] 20 0 init_state)))) =
      trace (final (train_task (ex_env (Fin 0)) ex_args (ex_model ''VAN'') [ex_task, ex_task] 20 0 init_state))
        @ Restore # rest
      \<and> list_all (\<lambda>e. e \<noteq> Restore) rest)
   \<and> (\<exists>pre. trace (final (train_task (ex_env (Fin 0)) ex_args (ex_model ''VAN'') [ex_task, ex_task] 20 0 init_state)) =
        pre @ [TaskUpdates 0, AccuracyEval [], AccuracyEval [], ResetOptimizer])"
proof -
  let ?t0 = "train_task (ex_env (Fin 0)) ex_args (ex_model ''VAN'') [ex_task, ex_task] 20 0 init_state"
  have "\<not> isl ?t0" by (simp add: all_defs)
  then have r: "?t0 = Inr (final ?t0)" by (rule not_isl_final)
  show ?thesis
    using restore_at_task_start [where en = "ex_env (Fin 0)" and a = ex_args
        and mdl = "ex_model ''VAN''" and ds = "[ex_task, ex_task]" and ems = 20 and task = 1
        and s = "final ?t0" and ?s0.0 = init_state] r
    by (simp add: ex_task_def)
qed

section \<open>The episodic counter (C10)\<close>

lemma for_loop_final_inv:
  assumes "\<And>i s. f (final (body i s)) = f s"
  shows "f (final (for_loop body is s)) = f s"
proof (induction "is" arbitrary: s)
  case Nil
  then show ?case by simp
next
  case (Cons i "is")
  show ?case
  proof (cases "body i s")
    case (Inl e)
    then show ?thesis using assms [of i s] by simp
  next
    case (Inr s')
    then show ?thesis using assms [of i s] Cons.IH [of s'] by simp
  qed
qed

lemma for_loop_Inr_induct:
  assumes "for_loop body is s = Inr s'" and "P s"
    and "\<And>i s s'. P s \<Longrightarrow> body i s = Inr s' \<Longrightarrow> P s'"
  shows "P s'"
  using assms(1,2)
proof (induction "is" arbitrary: s)
  case Nil
  then show ?case by simp
next
  case (Cons i "is")
  then obtain u where u: "body i s = Inr u" and r: "for_loop body is u = Inr s'"
    by (auto split: sum.splits)
  from Cons.prems(2) u have "P u" by (rule assms(3))
  with r show ?case by (rule Cons.IH)
qed

lemma train_iter_counter:
  "episodic_filled_counter (final (train_iter en a mdl ds ems task tr iters s)) =
     episodic_filled_counter s"
  by (simp add: final_train_iter iter_step_def Let_def strategy_step_counter
        take_snapshot_state)

lemma hindsight_hook_counter:
  "episodic_filled_counter (final (hindsight_hook en t s)) = episodic_filled_counter s"
  by (simp add: hindsight_hook_def Let_def emit_def split: sum.split)

lemma finish_task_counter:
  "episodic_filled_counter (finish_task en a mdl ds t s) =
     episodic_filled_counter s + (if use_episodic_memory mdl then mem_size a * TOTAL_CLASSES else 0)"
  by (simp add: finish_task_def Let_def test_task_sequence_state emit_def)

lemma train_task_counter:
  assumes "train_task en a mdl ds ems t s = Inr s'"
  shows "episodic_filled_counter s' =
     episodic_filled_counter s + (if use_episodic_memory mdl then mem_size a * TOTAL_CLASSES else 0)"
proof -
  let ?b = "begin_task a ds t s"
  let ?l = "train_loop en a mdl ds ems t (snd ?b) [0..<num_iters_of a (length (snd ?b))] (fst ?b)"
  from assms obtain s1 where l: "?l = Inr s1" and al: "after_loop en a mdl ds t s1 = Inr s'"
    by (auto simp: train_task_def Let_def split: if_splits sum.splits)
  have "episodic_filled_counter (final ?l) = episodic_filled_counter (fst ?b)"
    unfolding train_loop_def by (rule for_loop_final_inv) (rule train_iter_counter)
  then have c1: "episodic_filled_counter s1 = episodic_filled_counter s"
    using l by (simp add: begin_task_def Let_def emit_def)
  from al obtain u where u: "s' = finish_task en a mdl ds t u"
    and cu: "episodic_filled_counter u = episodic_filled_counter s1"
    using hindsight_hook_counter [of en t s1]
    by (auto simp: after_loop_def split: if_splits sum.splits)
  show ?thesis by (simp add: u finish_task_counter cu c1)
qed

lemma run_tasks_counter:
  assumes "run_tasks en a mdl ds [0..<t] s = Inr s'"
  shows "episodic_filled_counter s' =
     episodic_filled_counter s
       + t * (if use_episodic_memory mdl then mem_size a * TOTAL_CLASSES else 0)"
  using assms
proof (induction t arbitrary: s')
  case 0
  then show ?case by (simp add: run_tasks_def)
next
  case (Suc t)
  from Suc.prems obtain u where u: "run_tasks en a mdl ds [0..<t] s = Inr u"
    and t: "train_task en a mdl ds (mem_size a * num_tasks mdl * TOTAL_CLASSES) t u = Inr s'"
    by (auto simp: run_tasks_def for_loop_append split: sum.splits)
  show ?case using Suc.IH [OF u] train_task_counter [OF t] by simp
qed


lemma begin_run_counter:
  assumes "use_episodic_memory mdl" and "begin_run en a mdl runid s = Inr (sb, ds)"
  shows "episodic_filled_counter sb = 0"
  using assms by (auto simp: begin_run_def init_memory_def Let_def split: if_splits)

lemma fifo_offer_below:
  assumes "fifo_offer tls mpc base (imgs, lbls, cnt) ex = (imgs', lbls', cnt')" and "i < base"
  shows "imgs' i = imgs i \<and> lbls' i = lbls i"
  using assms by (auto simp: fifo_offer_def Let_def split: option.splits if_splits)

lemma update_fifo_buffer_below:
  assumes "i < base"
  shows "fst (update_fifo_buffer xs imgs lbls tls mpc cnt base) i = imgs i
         \<and> fst (snd (update_fifo_buffer xs imgs lbls tls mpc cnt base)) i = lbls i"
proof (induction xs rule: rev_induct)
  case Nil
  then show ?case by (simp add: update_fifo_buffer_def)
next
  case (snoc x xs)
  obtain imgs1 lbls1 cnt1 where 1: "update_fifo_buffer xs imgs lbls tls mpc cnt base = (imgs1, lbls1, cnt1)"
    by (cases "update_fifo_buffer xs imgs lbls tls mpc cnt base") auto
  obtain imgs2 lbls2 cnt2 where 2: "fifo_offer tls mpc base (imgs1, lbls1, cnt1) x = (imgs2, lbls2, cnt2)"
    by (cases "fifo_offer tls mpc base (imgs1, lbls1, cnt1) x") auto
  have 3: "update_fifo_buffer (xs @ [x]) imgs lbls tls mpc cnt base = (imgs2, lbls2, cnt2)"
    using 1 2 by (simp add: update_fifo_buffer_def)
  show ?case using snoc.IH fifo_offer_below [OF 2 assms] by (simp add: 1 3)
qed

lemma ring_iter_below:
  assumes "model_imp_method mdl \<in> {''A-GEM'', ''ER-Ring'', ''ER-Hindsight-Anchors''}"
    and "i < episodic_filled_counter s"
  shows "episodic_images (final (train_iter en a mdl ds ems task tr iters s)) i = episodic_images s i
       \<and> episodic_labels (final (train_iter en a mdl ds ems task tr iters s)) i = episodic_labels s i"
  using assms
  by (auto simp: final_train_iter iter_step_def strategy_step_def step_agem_def
        step_er_ring_def step_er_hindsight_def op_defs Let_def take_snapshot_state
        update_fifo_buffer_below)

text \<open>
  C10, as the code has it. In a run that uses episodic memory, at every iteration of task
  \<open>task\<close> the counter equals \<open>task * mem_size * TOTAL_CLASSES\<close>; an iteration leaves it
  unchanged (the FIFO update receives its value), and a completed task adds
  \<open>mem_size * TOTAL_CLASSES\<close> once. The indices A-GEM and the ring strategies sample are
  below the counter, and under these strategies the slots below the counter still hold
  what they held when the task began: the sample consists of examples stored by earlier
  tasks.
\<close>

theorem episodic_counter_per_task:
  assumes uem: "use_episodic_memory mdl"
    and run_start: "begin_run en a mdl runid sr = Inr (sb, ds)"
    and tasks_before: "run_tasks en a mdl ds [0..<task] sb = Inr st"
    and task_start: "begin_task a ds task st = (s1, train_xy)"
    and iters_before: "train_loop en a mdl ds ems task train_xy [0..<iters] s1 = Inr s"
  shows "episodic_filled_counter s = task * (mem_size a * TOTAL_CLASSES)
    \<and> episodic_filled_counter (final (train_iter en a mdl ds ems task train_xy iters s)) =
        episodic_filled_counter s
    \<and> (\<forall>s'. train_task en a mdl ds ems task st = Inr s' \<longrightarrow>
          episodic_filled_counter s' = (task + 1) * (mem_size a * TOTAL_CLASSES))
    \<and> set (fst (mem_sample (episodic_filled_counter s) (eps_mem_batch a) g))
        \<subseteq> {..<task * (mem_size a * TOTAL_CLASSES)}
    \<and> set (fst (ring_mem_indices a ems s g)) \<subseteq> {..<task * (mem_size a * TOTAL_CLASSES)}
    \<and> (model_imp_method mdl \<in> {''A-GEM'', ''ER-Ring'', ''ER-Hindsight-Anchors''} \<longrightarrow>
         (\<forall>i<task * (mem_size a * TOTAL_CLASSES).
            episodic_images s i = episodic_images st i
            \<and> episodic_labels s i = episodic_labels st i))"
proof -
  let ?c = "task * (mem_size a * TOTAL_CLASSES)"
  have "episodic_filled_counter sb = 0"
    using uem run_start by (rule begin_run_counter)
  then have st: "episodic_filled_counter st = ?c"
    using run_tasks_counter [OF tasks_before] uem by simp
  have s1: "episodic_filled_counter s1 = ?c \<and> episodic_images s1 = episodic_images st
            \<and> episodic_labels s1 = episodic_labels st"
    using task_start st by (auto simp: begin_task_def Let_def emit_def)
  have "episodic_filled_counter (final (train_loop en a mdl ds ems task train_xy [0..<iters] s1))
          = episodic_filled_counter s1"
    unfolding train_loop_def by (rule for_loop_final_inv) (rule train_iter_counter)
  then have c: "episodic_filled_counter s = ?c" using iters_before s1 by simp
  have after: "\<forall>s'. train_task en a mdl ds ems task st = Inr s' \<longrightarrow>
          episodic_filled_counter s' = (task + 1) * (mem_size a * TOTAL_CLASSES)"
    using train_task_counter [of en a mdl ds ems task st] st uem by simp
  have agem: "set (fst (mem_sample (episodic_filled_counter s) (eps_mem_batch a) g)) \<subseteq> {..<?c}"
    using mem_sample_props(3) [of "episodic_filled_counter s" "eps_mem_batch a" g] c by simp
  have "mem_filled_so_far (episodic_filled_counter s) ems \<le> ?c"
    using c by (simp add: mem_filled_so_far_def)
  then have ring: "set (fst (ring_mem_indices a ems s g)) \<subseteq> {..<?c}"
    using mem_sample_props(3)
            [of "mem_filled_so_far (episodic_filled_counter s) ems" "eps_mem_batch a" g]
    by (auto simp: ring_mem_indices_def)
  have kept: "model_imp_method mdl \<in> {''A-GEM'', ''ER-Ring'', ''ER-Hindsight-Anchors''} \<longrightarrow>
         (\<forall>i<?c. episodic_images s i = episodic_images st i
                 \<and> episodic_labels s i = episodic_labels st i)"
  proof
    assume m: "model_imp_method mdl \<in> {''A-GEM'', ''ER-Ring'', ''ER-Hindsight-Anchors''}"
    let ?P = "\<lambda>u. episodic_filled_counter u = ?c
                \<and> (\<forall>i<?c. episodic_images u i = episodic_images st i
                          \<and> episodic_labels u i = episodic_labels st i)"
    have "?P s"
    proof (rule for_loop_Inr_induct [OF iters_before [unfolded train_loop_def], of ?P])
      show "?P s1" using s1 by simp
    next
      fix i u u'
      assume u: "?P u" and step: "train_iter en a mdl ds ems task train_xy i u = Inr u'"
      have f: "final (train_iter en a mdl ds ems task train_xy i u) = u'" using step by simp
      have "episodic_filled_counter u' = ?c"
        using train_iter_counter [of en a mdl ds ems task train_xy i u] u f by simp
      moreover have "\<forall>j<?c. episodic_images u' j = episodic_images st j
                          \<and> episodic_labels u' j = episodic_labels st j"
      proof (intro allI impI)
        fix j assume j: "j < ?c"
        then have "j < episodic_filled_counter u" using u by simp
        from ring_iter_below [OF m this, of en a ds ems task train_xy i] u j f
        show "episodic_images u' j = episodic_images st j
              \<and> episodic_labels u' j = episodic_labels st j" by simp
      qed
      ultimately show "?P u'" by simp
    qed
    then show "\<forall>i<?c. episodic_images s i = episodic_images st i
                 \<and> episodic_labels s i = episodic_labels st i" by simp
  qed
  show ?thesis
    using c train_iter_counter [of en a mdl ds ems task train_xy iters s] after agem ring kept
    by simp
qed

theorem episodic_counter_per_task_witness:
  "episodic_filled_counter
     (fst (begin_task ex_args [ex_task, ex_task] 1
        (final (run_tasks (ex_env (Fin 0)) ex_args ex_ring_model [ex_task, ex_task] [0..<1]
           (fst (projr (begin_run (ex_env (Fin 0)) ex_args ex_ring_model 0 init_state))))))) = 10
   \<and> set (fst (ring_mem_indices ex_args 20
        (fst (begin_task ex_args [ex_task, ex_task] 1
           (final (run_tasks (ex_env (Fin 0)) ex_args ex_ring_model [ex_task, ex_task] [0..<1]
              (fst (projr (begin_run (ex_env (Fin 0)) ex_args ex_ring_model 0 init_state)))))))
        (\<lambda>n. 0))) \<subseteq> {..<10}"
proof -
  let ?en = "ex_env (Fin 0)" and ?ds = "[ex_task, ex_task]"
  let ?sb = "fst (projr (begin_run ?en ex_args ex_ring_model 0 init_state))"
  let ?rt = "run_tasks ?en ex_args ex_ring_model ?ds [0..<1] ?sb"
  let ?s1 = "fst (begin_task ex_args ?ds 1 (final ?rt))"
  let ?tr = "snd (begin_task ex_args ?ds 1 (final ?rt))"
  have h1: "use_episodic_memory ex_ring_model"
    by (simp add: use_episodic_memory_def ex_ring_model_def)
  have h2: "begin_run ?en ex_args ex_ring_model 0 init_state = Inr (?sb, ?ds)"
    by (simp add: begin_run_def ex_env_def ex_ring_model_def ex_args_def Let_def
          eval_nat_numeral)
  have "\<not> isl ?rt"
    by (simp add: all_defs ex_ring_model_def mem_sample_def ring_mem_indices_def
          mem_filled_so_far_def mem_examples_def)
  then have h3: "?rt = Inr (final ?rt)" by (rule not_isl_final)
  have h4: "begin_task ex_args ?ds 1 (final ?rt) = (?s1, ?tr)" by simp
  have h5: "train_loop ?en ex_args ex_ring_model ?ds 20 1 ?tr [0..<0] ?s1 = Inr ?s1"
    by (simp add: train_loop_def)
  show ?thesis
    using episodic_counter_per_task [OF h1 h2 h3 h4 h5, where g = "\<lambda>n. 0"]
    by (simp add: ex_args_def TOTAL_CLASSES_def)
qed

text \<open>
  C10 as stated fails for the reservoir strategies, which use episodic memory but sample
  by \<open>examples_seen_so_far\<close>: in iteration 1 of task 0 ER-Reservoir draws slot 0, which
  iteration 0 of the same task filled.
\<close>

theorem reservoir_samples_current_task:
  "use_episodic_memory (ex_model ''ER-Reservoir'')
   \<and> fst (reservoir_mem_indices ex_reservoir_args 10
        (final (train_loop (ex_env (Fin 0)) ex_reservoir_args (ex_model ''ER-Reservoir'')
           [ex_task] 10 0 [(flat_image 1, class0), (flat_image 0, class0)] [0..<1]
           (fst (begin_task ex_reservoir_args [ex_task] 0
              (fst (projr (begin_run (ex_env (Fin 0)) ex_reservoir_args (ex_model ''ER-Reservoir'') 0
                 init_state)))))))) = [0]
   \<and> \<not> set [0::nat] \<subseteq> {..<0 * (mem_size ex_reservoir_args * TOTAL_CLASSES)}"
  by (simp add: all_defs ex_reservoir_args_def mem_filled_so_far_def mem_sample_def
        reservoir_mem_indices_def mem_examples_def update_reservior_def reservoir_offer_def)

section \<open>The anchors of task 0 (C2)\<close>

subsection \<open>A ring of capacity one keeps the latest example of its class\<close>

lemma fifo_offer_one:
  "fifo_offer [0..<n] (Suc 0) b (imgs, lbls, cnt) ex =
     (case label_class (snd ex) of
        None \<Rightarrow> (imgs, lbls, cnt)
      | Some c \<Rightarrow>
          if c < n then (imgs(b + c := fst ex), lbls(b + c := snd ex), cnt(c := Suc (cnt c)))
          else (imgs, lbls, cnt))"
  by (simp add: fifo_offer_def Let_def split: option.split)

lemma last_of_class_snoc:
  "last_of_class c (xs @ [x]) =
     (if label_class (snd x) = Some c then Some x else last_of_class c xs)"
  by (simp add: last_of_class_def)

lemma fifo_one_last:
  assumes "c < n"
  shows "(fst (foldl (fifo_offer [0..<n] (Suc 0) b) (imgs, lbls, cnt) xs) (b + c),
          fst (snd (foldl (fifo_offer [0..<n] (Suc 0) b) (imgs, lbls, cnt) xs)) (b + c)) =
         (case last_of_class c xs of None \<Rightarrow> (imgs (b + c), lbls (b + c)) | Some ex \<Rightarrow> ex)"
proof (induction xs rule: rev_induct)
  case Nil
  then show ?case by (simp add: last_of_class_def)
next
  case (snoc x xs)
  obtain i1 l1 c1 where r: "foldl (fifo_offer [0..<n] (Suc 0) b) (imgs, lbls, cnt) xs = (i1, l1, c1)"
    by (cases "foldl (fifo_offer [0..<n] (Suc 0) b) (imgs, lbls, cnt) xs") auto
  show ?case
  proof (cases "label_class (snd x)")
    case None
    then show ?thesis using snoc.IH by (simp add: r fifo_offer_one last_of_class_snoc)
  next
    case (Some c')
    show ?thesis
    proof (cases "c' = c")
      case True
      then show ?thesis using Some assms by (simp add: r fifo_offer_one last_of_class_snoc)
    next
      case False
      then show ?thesis using Some snoc.IH by (simp add: r fifo_offer_one last_of_class_snoc)
    qed
  qed
qed

lemma last_of_class_map:
  "last_of_class c (map (\<lambda>ex. (f (fst ex), snd ex)) xs) =
     map_option (\<lambda>ex. (f (fst ex), snd ex)) (last_of_class c xs)"
  by (induction xs rule: rev_induct) (simp_all add: last_of_class_def)

lemma hindsight_iter_anchor:
  assumes "model_imp_method mdl = ''ER-Hindsight-Anchors''"
    and "train_iter en a mdl ds ems 0 tr i s = Inr s'"
  shows "(anchor_images s', anchor_labels s', anchor_count_cls s') =
           foldl (fifo_offer [0..<TOTAL_CLASSES] (Suc 0) 0)
             (anchor_images s, anchor_labels s, anchor_count_cls s)
             (map (\<lambda>ex. (map Fin (fst ex), snd ex)) (realized_batch a tr i))"
proof -
  have ne: "tr \<noteq> []"
    using assms(2) by (auto simp: train_iter_def iter_step_def Let_def)
  have "final (train_iter en a mdl ds ems 0 tr i s) = s'" using assms(2) by simp
  then have "s' = final (iter_step en a mdl ds ems 0 tr i s)" by (simp add: final_train_iter)
  then show ?thesis
    using assms(1) ne
    by (simp add: iter_step_def strategy_step_def step_er_hindsight_def op_defs Let_def
          take_snapshot_state update_fifo_buffer_def)
qed

lemma hindsight_loop_anchor:
  assumes "model_imp_method mdl = ''ER-Hindsight-Anchors''"
    and "train_loop en a mdl ds ems 0 tr its s = Inr s'"
  shows "(anchor_images s', anchor_labels s', anchor_count_cls s') =
           foldl (fifo_offer [0..<TOTAL_CLASSES] (Suc 0) 0)
             (anchor_images s, anchor_labels s, anchor_count_cls s)
             (map (\<lambda>ex. (map Fin (fst ex), snd ex)) (task_stream a tr its))"
  using assms(2)
proof (induction its arbitrary: s)
  case Nil
  then show ?case by (simp add: train_loop_def task_stream_def)
next
  case (Cons i its)
  then obtain u where u: "train_iter en a mdl ds ems 0 tr i s = Inr u"
    and r: "train_loop en a mdl ds ems 0 tr its u = Inr s'"
    by (auto simp: train_loop_def split: sum.splits)
  show ?case
    using Cons.IH [OF r] hindsight_iter_anchor [OF assms(1) u]
    by (simp add: task_stream_def)
qed

lemma finish_task_anchor:
  "anchor_images (finish_task en a mdl ds t s) = anchor_images s
   \<and> anchor_labels (finish_task en a mdl ds t s) = anchor_labels s"
  by (simp add: finish_task_def Let_def test_task_sequence_state emit_def)

text \<open>
  C2, against \<open>update_fifo_buffer\<close> as the spec describes it. When task 0 has completed
  under ER-Hindsight-Anchors, the anchor slot of every class holds the last example of
  that class in the stream of realized batches of the task, copied as it is (no
  normalisation is applied in task 0) together with its label; the slot of a class that
  did not occur is unchanged.
\<close>

theorem task0_anchor_is_last_seen:
  assumes hs: "model_imp_method mdl = ''ER-Hindsight-Anchors''"
    and completed: "train_task en a mdl ds ems 0 s = Inr s'"
    and c: "c < TOTAL_CLASSES"
  shows "(anchor_images s' c, anchor_labels s' c) =
           (case last_of_class c
                   (task_stream a (snd (begin_task a ds 0 s))
                      [0..<num_iters_of a (length (snd (begin_task a ds 0 s)))]) of
              None \<Rightarrow> (anchor_images s c, anchor_labels s c)
            | Some ex \<Rightarrow> (map Fin (fst ex), snd ex))"
proof -
  let ?b = "begin_task a ds 0 s"
  let ?its = "[0..<num_iters_of a (length (snd ?b))]"
  from completed obtain s1 where l: "train_loop en a mdl ds ems 0 (snd ?b) ?its (fst ?b) = Inr s1"
    and al: "after_loop en a mdl ds 0 s1 = Inr s'"
    by (auto simp: train_task_def Let_def split: if_splits sum.splits)
  have b: "anchor_images (fst ?b) = anchor_images s \<and> anchor_labels (fst ?b) = anchor_labels s"
    by (simp add: begin_task_def Let_def)
  have "s' = finish_task en a mdl ds 0 (emit ResetAvgImageVectors s1)"
    using al hs by (simp add: after_loop_def hindsight_hook_def)
  then have e: "anchor_images s' = anchor_images s1 \<and> anchor_labels s' = anchor_labels s1"
    by (simp add: finish_task_anchor emit_def)
  have "(anchor_images s1 (0 + c), anchor_labels s1 (0 + c)) =
          (case last_of_class c (map (\<lambda>ex. (map Fin (fst ex), snd ex))
                                   (task_stream a (snd ?b) ?its)) of
             None \<Rightarrow> (anchor_images (fst ?b) (0 + c), anchor_labels (fst ?b) (0 + c))
           | Some ex \<Rightarrow> ex)"
    using fifo_one_last [OF c, where b = 0 and imgs = "anchor_images (fst ?b)"
            and lbls = "anchor_labels (fst ?b)" and cnt = "anchor_count_cls (fst ?b)"
            and xs = "map (\<lambda>ex. (map Fin (fst ex), snd ex)) (task_stream a (snd ?b) ?its)"]
          hindsight_loop_anchor [OF hs l, symmetric]
    by simp
  then show ?thesis
    by (simp add: e b last_of_class_map split: option.split)
qed

theorem task0_anchor_is_last_seen_witness:
  "(anchor_images
      (final (train_task (ex_env (Fin 0)) ex_args (ex_model ''ER-Hindsight-Anchors'') [ex_task] 10 0
         (fst (projr (begin_run (ex_env (Fin 0)) ex_args (ex_model ''ER-Hindsight-Anchors'') 0
            init_state))))) 0,
    anchor_labels
      (final (train_task (ex_env (Fin 0)) ex_args (ex_model ''ER-Hindsight-Anchors'') [ex_task] 10 0
         (fst (projr (begin_run (ex_env (Fin 0)) ex_args (ex_model ''ER-Hindsight-Anchors'') 0
            init_state))))) 0) =
   (map Fin (flat_image 0), class0)"
proof -
  let ?en = "ex_env (Fin 0)" and ?m = "ex_model ''ER-Hindsight-Anchors''"
  let ?sb = "fst (projr (begin_run ?en ex_args ?m 0 init_state))"
  let ?t = "train_task ?en ex_args ?m [ex_task] 10 0 ?sb"
  have h1: "model_imp_method ?m = ''ER-Hindsight-Anchors''" by (simp add: ex_model_def)
  have "\<not> isl ?t"
    by (simp add: all_defs mem_sample_def ring_mem_indices_def mem_filled_so_far_def
          mem_examples_def hindsight_hook_def)
  then have h2: "?t = Inr (final ?t)" by (rule not_isl_final)
  have h3: "0 < TOTAL_CLASSES" by (simp add: TOTAL_CLASSES_def)
  have st: "task_stream ex_args (snd (begin_task ex_args [ex_task] 0 ?sb))
              [0..<num_iters_of ex_args (length (snd (begin_task ex_args [ex_task] 0 ?sb)))] =
            [(flat_image 1, class0), (flat_image 0, class0)]"
    by (simp add: all_defs task_stream_def)
  show ?thesis
    using task0_anchor_is_last_seen [OF h1 h2 h3]
    by (simp add: st last_of_class_def label_class_def class0_def)
qed

text \<open>
  C2 as stated fails when a class occurs twice: the stream of task 0 holds two examples of
  class 0, the first with all pixels 1 and the second with all pixels 0, and the anchor of
  class 0 after the task is the second.
\<close>

theorem task0_anchor_is_not_first_seen:
  "first_of_class 0
     (task_stream ex_args
        (snd (begin_task ex_args [ex_task] 0
           (fst (projr (begin_run (ex_env (Fin 0)) ex_args (ex_model ''ER-Hindsight-Anchors'') 0
              init_state)))))
        [0..<2]) = Some (flat_image 1, class0)
   \<and> anchor_images
      (final (train_task (ex_env (Fin 0)) ex_args (ex_model ''ER-Hindsight-Anchors'') [ex_task] 10 0
         (fst (projr (begin_run (ex_env (Fin 0)) ex_args (ex_model ''ER-Hindsight-Anchors'') 0
            init_state))))) 0 = map Fin (flat_image 0)
   \<and> map Fin (flat_image 0) \<noteq> map Fin (flat_image 1)"
  by (simp add: all_defs task_stream_def first_of_class_def label_class_def class0_def
        mem_sample_def ring_mem_indices_def mem_filled_so_far_def mem_examples_def
        hindsight_hook_def update_fifo_buffer_def fifo_offer_def TOTAL_CLASSES_def
        flat_image_def INPUT_FEATURE_SIZE_def)

section \<open>Reseeding (C5)\<close>

subsection \<open>Only \<open>begin_run\<close> reads the seed\<close>

lemma train_iter_seed:
  "train_iter en (a\<lparr>random_seed := b\<rparr>) mdl ds ems task tr = train_iter en a mdl ds ems task tr"
  by (intro ext)
     (simp add: train_iter_def iter_step_def strategy_step_def step_defs op_defs Let_def
        snapshot_due_def feed_batch_def realized_batch_def offset_of_def residual_of_def
        reservoir_mem_indices_def ring_mem_indices_def)

lemma finish_task_seed:
  "finish_task en (a\<lparr>random_seed := b\<rparr>) mdl ds t s = finish_task en a mdl ds t s"
  by (simp add: finish_task_def Let_def)

lemma after_loop_seed:
  "after_loop en (a\<lparr>random_seed := b\<rparr>) mdl ds t s = after_loop en a mdl ds t s"
  by (cases "hindsight_hook en t s") (simp_all add: after_loop_def finish_task_seed)

lemma train_task_seed:
  "train_task en (a\<lparr>random_seed := b\<rparr>) mdl ds ems = train_task en a mdl ds ems"
proof (intro ext)
  fix t s
  have b: "begin_task (a\<lparr>random_seed := b\<rparr>) ds t s = begin_task a ds t s"
    by (simp add: begin_task_def Let_def)
  have n: "\<And>k. num_iters_of (a\<lparr>random_seed := b\<rparr>) k = num_iters_of a k"
    by (simp add: num_iters_of_def)
  show "train_task en (a\<lparr>random_seed := b\<rparr>) mdl ds ems t s = train_task en a mdl ds ems t s"
    unfolding train_task_def train_loop_def train_iter_seed b n after_loop_seed
    by simp
qed


lemma run_tasks_seed:
  "run_tasks en (a\<lparr>random_seed := b\<rparr>) mdl ds ts s = run_tasks en a mdl ds ts s"
  by (simp add: run_tasks_def train_task_seed)

subsection \<open>The generator and the episodic arrays do not depend on the session\<close>

text \<open>
  Two executions of a strategy's branch, of an iteration, of a task and of a run that start
  with the same generator and episodic arrays end with the same, whatever the two sessions
  return and whatever was logged before, as long as both complete. ER-Hindsight-Anchors is
  excepted: its anchor synthesis runs the model and hands the generator back.
\<close>

lemma mer_memory_steps_memory: "memory_of (mer_memory_steps en xs s) = memory_of s"
  by (induction xs arbitrary: s)
     (simp_all add: mer_memory_steps_def run_loss_def emit_def memory_of_def)

lemma mer_memory_steps_fields:
  "rng (mer_memory_steps en xs s) = rng s"
  "episodic_images (mer_memory_steps en xs s) = episodic_images s"
  "episodic_labels (mer_memory_steps en xs s) = episodic_labels s"
  "count_cls (mer_memory_steps en xs s) = count_cls s"
  "examples_seen_so_far (mer_memory_steps en xs s) = examples_seen_so_far s"
  using mer_memory_steps_memory [of en xs s] by (simp_all add: memory_of_def)

lemma plain_steps_memory:
  "memory_of (step_van en fb s) = memory_of s"
  "memory_of (step_ftr_ext en task fb s) = memory_of s"
  "memory_of (step_pi en fb s) = memory_of s"
  "memory_of (step_mas en fb s) = memory_of s"
  "memory_of (final (step_ewc en mdl task iters fb s)) = memory_of s"
  "memory_of (final (step_rwalk en mdl task iters fb s)) = memory_of s"
  by (simp_all add: memory_of_def step_van_def step_ftr_ext_def step_pi_def step_mas_def
        step_ewc_def step_rwalk_def run_loss_def run_op_def emit_def Let_def)

lemma step_agem_memory:
  "memory_of s = memory_of s' \<Longrightarrow>
   memory_of (step_agem en a task fb rb s) = memory_of (step_agem en' a task fb rb s')"
  by (simp add: memory_of_def step_agem_def op_defs Let_def)

lemma step_er_reservoir_memory:
  "memory_of s = memory_of s' \<Longrightarrow>
   memory_of (step_er_reservoir en a ems rb s) = memory_of (step_er_reservoir en' a ems rb s')"
  by (simp add: memory_of_def step_er_reservoir_def op_defs Let_def reservoir_mem_indices_def)

lemma step_mer_memory:
  "memory_of s = memory_of s' \<Longrightarrow>
   memory_of (step_mer en a ems rb s) = memory_of (step_mer en' a ems rb s')"
  by (simp add: memory_of_def step_mer_def op_defs Let_def reservoir_mem_indices_def
        mer_memory_steps_fields mer_memory_steps_frame)

lemma step_er_ring_memory:
  "memory_of s = memory_of s' \<Longrightarrow>
   memory_of (step_er_ring en a ems rb s) = memory_of (step_er_ring en' a ems rb s')"
  by (simp add: memory_of_def step_er_ring_def op_defs Let_def ring_mem_indices_def)

lemma strategy_step_memory:
  assumes "model_imp_method mdl \<noteq> ''ER-Hindsight-Anchors''"
    and "memory_of s = memory_of s'"
  shows "memory_of (final (strategy_step en a mdl ems task ac iters fb rb s)) =
         memory_of (final (strategy_step en' a mdl ems task ac iters fb rb s'))"
  using assms
  by (simp add: strategy_step_def plain_steps_memory step_agem_memory
        step_er_reservoir_memory step_mer_memory step_er_ring_memory)

lemma train_iter_memory:
  assumes "model_imp_method mdl \<noteq> ''ER-Hindsight-Anchors''"
    and "memory_of s = memory_of s'"
  shows "memory_of (final (train_iter en a mdl ds ems task tr iters s)) =
         memory_of (final (train_iter en' a mdl ds ems task tr iters s'))"
proof -
  let ?s1 = "if snapshot_due a iters then take_snapshot en ds s else s"
  let ?s1' = "if snapshot_due a iters then take_snapshot en' ds s' else s'"
  have 1: "memory_of ?s1 = memory_of ?s1'"
    using assms(2) by (simp add: take_snapshot_state memory_of_def)
  show ?thesis
  proof (cases "length tr = 0")
    case True
    then show ?thesis using 1 by (simp add: final_train_iter iter_step_def Let_def)
  next
    case False
    then show ?thesis
      using strategy_step_memory [OF assms(1) 1]
      by (simp add: final_train_iter iter_step_def Let_def)
  qed
qed

lemma for_loop_rel:
  assumes "for_loop f is s = Inr t" and "for_loop f' is s' = Inr t'" and "R s s'"
    and "\<And>i u u' v v'. R u u' \<Longrightarrow> f i u = Inr v \<Longrightarrow> f' i u' = Inr v' \<Longrightarrow> R v v'"
  shows "R t t'"
  using assms(1,2,3)
proof (induction "is" arbitrary: s s')
  case Nil
  then show ?case by simp
next
  case (Cons i "is")
  from Cons.prems(1) obtain v where v: "f i s = Inr v" and r: "for_loop f is v = Inr t"
    by (auto split: sum.splits)
  from Cons.prems(2) obtain v' where v': "f' i s' = Inr v'" and r': "for_loop f' is v' = Inr t'"
    by (auto split: sum.splits)
  have "R v v'" using Cons.prems(3) v v' by (rule assms(4))
  with r r' show ?case by (rule Cons.IH)
qed

lemma finish_task_memory:
  "memory_of s = memory_of s' \<Longrightarrow>
   memory_of (finish_task en a mdl ds t s) = memory_of (finish_task en' a mdl ds t s')"
  by (simp add: finish_task_def Let_def test_task_sequence_state emit_def memory_of_def)

lemma begin_task_memory:
  assumes "memory_of s = memory_of s'"
  shows "memory_of (fst (begin_task a ds t s)) = memory_of (fst (begin_task a ds t s'))
         \<and> snd (begin_task a ds t s) = snd (begin_task a ds t s')"
  using assms by (simp add: begin_task_def Let_def emit_def memory_of_def)

lemma train_task_memory:
  assumes nh: "model_imp_method mdl \<noteq> ''ER-Hindsight-Anchors''"
    and m: "memory_of s = memory_of s'"
    and r: "train_task en a mdl ds ems t s = Inr u"
    and r': "train_task en' a mdl ds ems t s' = Inr u'"
  shows "memory_of u = memory_of u'"
proof -
  let ?b = "begin_task a ds t s" and ?b' = "begin_task a ds t s'"
  let ?its = "[0..<num_iters_of a (length (snd ?b))]"
  have b: "memory_of (fst ?b) = memory_of (fst ?b')" and tr: "snd ?b' = snd ?b"
    using begin_task_memory [OF m, of a ds t] by simp_all
  from r obtain v where l: "train_loop en a mdl ds ems t (snd ?b) ?its (fst ?b) = Inr v"
    and u: "u = finish_task en a mdl ds t v"
    using nh by (auto simp: train_task_def after_loop_def Let_def split: if_splits sum.splits)
  from r' obtain v' where l': "train_loop en' a mdl ds ems t (snd ?b) ?its (fst ?b') = Inr v'"
    and u': "u' = finish_task en' a mdl ds t v'"
    using nh by (auto simp: train_task_def after_loop_def Let_def tr split: if_splits sum.splits)
  have "memory_of v = memory_of v'"
  proof (rule for_loop_rel [OF l [unfolded train_loop_def] l' [unfolded train_loop_def],
           of "\<lambda>x y. memory_of x = memory_of y"])
    show "memory_of (fst ?b) = memory_of (fst ?b')" by (rule b)
  next
    fix i x x' y y'
    assume "memory_of x = memory_of x'"
      and "train_iter en a mdl ds ems t (snd ?b) i x = Inr y"
      and "train_iter en' a mdl ds ems t (snd ?b) i x' = Inr y'"
    then show "memory_of y = memory_of y'"
      using train_iter_memory [OF nh, of x x' en a ds ems t "snd ?b" i en'] by simp
  qed
  then show ?thesis by (simp add: u u' finish_task_memory)
qed

lemma run_tasks_memory:
  assumes nh: "model_imp_method mdl \<noteq> ''ER-Hindsight-Anchors''"
    and m: "memory_of s = memory_of s'"
    and r: "run_tasks en a mdl ds ts s = Inr u"
    and r': "run_tasks en' a mdl ds ts s' = Inr u'"
  shows "memory_of u = memory_of u'"
proof (rule for_loop_rel [OF r [unfolded run_tasks_def] r' [unfolded run_tasks_def],
         of "\<lambda>x y. memory_of x = memory_of y"])
  show "memory_of s = memory_of s'" by (rule m)
next
  fix i x x' y y'
  assume "memory_of x = memory_of x'"
    and "train_task en a mdl ds (mem_size a * num_tasks mdl * TOTAL_CLASSES) i x = Inr y"
    and "train_task en' a mdl ds (mem_size a * num_tasks mdl * TOTAL_CLASSES) i x' = Inr y'"
  then show "memory_of y = memory_of y'" by (rule train_task_memory [OF nh])
qed

lemma begin_run_memory:
  assumes "np_seed en' = np_seed en"
    and "construct_permute_mnist en' = construct_permute_mnist en"
    and "random_seed a + int i = random_seed a' + int j"
    and "use_episodic_memory mdl"
    and "begin_run en a mdl i s = Inr (sb, ds)"
    and "begin_run en' a' mdl j s' = Inr (sb', ds')"
  shows "ds' = ds \<and> memory_of sb = memory_of sb'"
  using assms
  by (auto simp: begin_run_def init_memory_def Let_def memory_of_def emit_def
        split: if_splits)

lemma begin_run_started:
  assumes "0 \<le> random_seed a + int runid" and "random_seed a + int runid < 2 ^ 32"
  shows "\<exists>sb. begin_run en a mdl runid s =
            Inr (sb, fst (construct_permute_mnist en (num_tasks mdl)
                            (np_seed en (random_seed a + int runid))))
          \<and> trace sb = trace s @ [RandomSeed (random_seed a + int runid),
                 ConstructPermuteMnist (num_tasks mdl), GlobalVariablesInitializer, InitUpdates]
          \<and> rng sb = snd (construct_permute_mnist en (num_tasks mdl)
                            (np_seed en (random_seed a + int runid)))"
  using assms by (simp add: begin_run_def init_memory_def Let_def emit_def)

lemma one_run_memory:
  assumes collab: "np_seed en' = np_seed en"
      "construct_permute_mnist en' = construct_permute_mnist en"
    and sum: "random_seed a + int runid = b' + int j"
    and uem: "use_episodic_memory mdl"
    and nh: "model_imp_method mdl \<noteq> ''ER-Hindsight-Anchors''"
    and r: "one_run en a mdl runid s = Inr t"
    and r': "one_run en' (a\<lparr>random_seed := b'\<rparr>) mdl j s' = Inr t'"
  shows "memory_of t = memory_of t'"
proof -
  from r obtain sb ds u where b: "begin_run en a mdl runid s = Inr (sb, ds)"
    and u: "run_tasks en a mdl ds [0..<length ds] sb = Inr u"
    and t: "t = u\<lparr>runs := runs u @ [evals u]\<rparr>"
    by (auto simp: one_run_def split: sum.splits)
  from r' obtain sb' ds' u' where
    b': "begin_run en' (a\<lparr>random_seed := b'\<rparr>) mdl j s' = Inr (sb', ds')"
    and u': "run_tasks en' a mdl ds' [0..<length ds'] sb' = Inr u'"
    and t': "t' = u'\<lparr>runs := runs u' @ [evals u']\<rparr>"
    by (auto simp: one_run_def run_tasks_seed split: sum.splits)
  have s: "random_seed a + int runid = random_seed (a\<lparr>random_seed := b'\<rparr>) + int j"
    using sum by simp
  have ds: "ds' = ds" and m: "memory_of sb = memory_of sb'"
    using begin_run_memory [OF collab s uem b b'] by simp_all
  have "memory_of u = memory_of u'"
    using nh m u u' [unfolded ds] by (rule run_tasks_memory)
  then show ?thesis by (simp add: t t' memory_of_def)
qed

text \<open>The model that \<open>main\<close> builds does not depend on the seed.\<close>

lemma build_model_seed:
  "snd (build_model en (a\<lparr>random_seed := b\<rparr>)) = snd (build_model en a)"
  by (simp add: build_model_def Let_def)

text \<open>The state in which \<open>train_task_sequence\<close> enters run \<open>i\<close>.\<close>

lemma train_task_sequence_enters_run:
  assumes "i < num_runs a"
    and "for_loop (one_run en a mdl) [0..<i]
           (s0\<lparr>runs := [], loss := None, phi_hat_bound := False\<rparr>) = Inr s"
  shows "train_task_sequence en a mdl s0 =
           (case one_run en a mdl i s of
              Inl e \<Rightarrow> Inl e
            | Inr s' \<Rightarrow> for_loop (one_run en a mdl) [Suc i..<num_runs a] s')"
  using assms by (simp add: train_task_sequence_def upt_split [of i] for_loop_append)

text \<open>
  C5, as the code has it. A run calls \<open>np.random.seed(random_seed + runid)\<close> first. When
  the sum is outside \<open>[0, 2**32 - 1]\<close> the call raises ValueError and the run does nothing
  else. Otherwise the run logs the seed, and its datasets and its generator are those that
  this seed gives, whatever state earlier runs left. Two runs with the same sum and otherwise
  the same configuration that use episodic memory under a strategy other than
  ER-Hindsight-Anchors and both complete end with the same generator state, episodic arrays,
  per-class counts and counters; this holds for different base seeds and run indices, for
  different histories of the session and for sessions that return different values.
\<close>

theorem reseed_determines_memory:
  "(random_seed a + int runid < 0 \<or> 2 ^ 32 \<le> random_seed a + int runid \<longrightarrow>
      one_run en a mdl runid s =
        Inl (ValueError ''Seed must be between 0 and 2**32 - 1'',
             emit (RandomSeed (random_seed a + int runid)) s))
   \<and> (0 \<le> random_seed a + int runid \<and> random_seed a + int runid < 2 ^ 32 \<longrightarrow>
        (\<exists>sb. begin_run en a mdl runid s =
                Inr (sb, fst (construct_permute_mnist en (num_tasks mdl)
                                (np_seed en (random_seed a + int runid))))
              \<and> trace sb = trace s @ [RandomSeed (random_seed a + int runid),
                     ConstructPermuteMnist (num_tasks mdl), GlobalVariablesInitializer,
                     InitUpdates]
              \<and> rng sb = snd (construct_permute_mnist en (num_tasks mdl)
                                (np_seed en (random_seed a + int runid)))))
   \<and> (np_seed en' = np_seed en \<and> construct_permute_mnist en' = construct_permute_mnist en
      \<and> random_seed a + int runid = b' + int j
      \<and> use_episodic_memory mdl \<and> model_imp_method mdl \<noteq> ''ER-Hindsight-Anchors''
      \<and> one_run en a mdl runid s = Inr t
      \<and> one_run en' (a\<lparr>random_seed := b'\<rparr>) mdl j s' = Inr t'
      \<longrightarrow> memory_of t = memory_of t')"
proof (intro conjI impI)
  assume "random_seed a + int runid < 0 \<or> 2 ^ 32 \<le> random_seed a + int runid"
  then show "one_run en a mdl runid s =
        Inl (ValueError ''Seed must be between 0 and 2**32 - 1'',
             emit (RandomSeed (random_seed a + int runid)) s)"
    by (auto simp: one_run_def begin_run_def Let_def)
next
  assume "0 \<le> random_seed a + int runid \<and> random_seed a + int runid < 2 ^ 32"
  then show "\<exists>sb. begin_run en a mdl runid s =
                Inr (sb, fst (construct_permute_mnist en (num_tasks mdl)
                                (np_seed en (random_seed a + int runid))))
              \<and> trace sb = trace s @ [RandomSeed (random_seed a + int runid),
                     ConstructPermuteMnist (num_tasks mdl), GlobalVariablesInitializer,
                     InitUpdates]
              \<and> rng sb = snd (construct_permute_mnist en (num_tasks mdl)
                                (np_seed en (random_seed a + int runid)))"
    using begin_run_started by blast
next
  assume h: "np_seed en' = np_seed en \<and> construct_permute_mnist en' = construct_permute_mnist en
      \<and> random_seed a + int runid = b' + int j
      \<and> use_episodic_memory mdl \<and> model_imp_method mdl \<noteq> ''ER-Hindsight-Anchors''
      \<and> one_run en a mdl runid s = Inr t
      \<and> one_run en' (a\<lparr>random_seed := b'\<rparr>) mdl j s' = Inr t'"
  then show "memory_of t = memory_of t'"
    using one_run_memory [of en' en a runid b' j mdl s t s' t'] by blast
qed

text \<open>
  Run 1 of an execution with base seed 1, entered in the state that run 0 left, and run 0
  of an execution with base seed 2: both are seeded with 2 and end with the same generator
  and episodic arrays. A base seed of -1 ends run 0 with ValueError.
\<close>

theorem reseed_determines_memory_witness:
  "memory_of (final (one_run ex_seeded_env ex_two_run_args ex_main_model 1
        (ex_before_run ex_two_run_args 1))) =
   memory_of (final (one_run ex_seeded_env (ex_two_run_args\<lparr>random_seed := 2\<rparr>) ex_main_model 0
        (ex_before_run (ex_two_run_args\<lparr>random_seed := 2\<rparr>) 0)))
   \<and> episodic_images (final (one_run ex_seeded_env ex_two_run_args ex_main_model 1
        (ex_before_run ex_two_run_args 1))) 0 = flat_image 1
   \<and> one_run ex_seeded_env (ex_two_run_args\<lparr>random_seed := - 1\<rparr>) ex_main_model 0
        (ex_before_run (ex_two_run_args\<lparr>random_seed := - 1\<rparr>) 0) =
       Inl (ValueError ''Seed must be between 0 and 2**32 - 1'',
            emit (RandomSeed (- 1)) (ex_before_run (ex_two_run_args\<lparr>random_seed := - 1\<rparr>) 0))
   \<and> (\<exists>sb. begin_run ex_seeded_env ex_two_run_args ex_main_model 1
               (ex_before_run ex_two_run_args 1) = Inr (sb, [ex_task, ex_task, ex_task])
           \<and> trace sb = trace (ex_before_run ex_two_run_args 1)
                 @ [RandomSeed 2, ConstructPermuteMnist 3, GlobalVariablesInitializer, InitUpdates]
           \<and> rng sb = (\<lambda>n. 2 + n))"
proof -
  let ?en = ex_seeded_env and ?a = ex_two_run_args and ?m = ex_main_model
  let ?r1 = "one_run ?en ?a ?m 1 (ex_before_run ?a 1)"
  let ?r2 = "one_run ?en (?a\<lparr>random_seed := 2\<rparr>) ?m 0 (ex_before_run (?a\<lparr>random_seed := 2\<rparr>) 0)"
  have "\<not> isl ?r1" by code_simp
  then have r1: "?r1 = Inr (final ?r1)" by (rule not_isl_final)
  have "\<not> isl ?r2" by code_simp
  then have r2: "?r2 = Inr (final ?r2)" by (rule not_isl_final)
  have sd: "random_seed ?a = 1" by (simp add: ex_two_run_args_def)
  have uem: "use_episodic_memory ?m" by code_simp
  have nh: "model_imp_method ?m \<noteq> ''ER-Hindsight-Anchors''" by code_simp
  have nt: "num_tasks ?m = 3"
    by (simp add: ex_main_model_def build_model_def Let_def ex_two_run_args_def ex_args_def
          K_FOR_CROSS_VAL_def)
  have ds: "\<And>g. construct_permute_mnist ?en 3 g = ([ex_task, ex_task, ex_task], g)"
    by (simp add: ex_seeded_env_def upt_conv_Cons)
  have g: "np_seed ?en 2 = (\<lambda>n. 2 + n)" by (simp add: ex_seeded_env_def fun_eq_iff)
  have c1: "memory_of (final ?r1) = memory_of (final ?r2)"
    using reseed_determines_memory [where a = ?a and runid = 1 and en = ?en and mdl = ?m
        and s = "ex_before_run ?a 1" and en' = ?en and b' = 2 and j = 0 and t = "final ?r1"
        and s' = "ex_before_run (?a\<lparr>random_seed := 2\<rparr>) 0" and t' = "final ?r2"]
      r1 r2 uem nh
    by (simp add: sd)
  have c2: "episodic_images (final ?r1) 0 = flat_image 1" by code_simp
  have c3: "one_run ?en (?a\<lparr>random_seed := - 1\<rparr>) ?m 0
        (ex_before_run (?a\<lparr>random_seed := - 1\<rparr>) 0) =
       Inl (ValueError ''Seed must be between 0 and 2**32 - 1'',
            emit (RandomSeed (- 1)) (ex_before_run (?a\<lparr>random_seed := - 1\<rparr>) 0))"
    using reseed_determines_memory [where a = "?a\<lparr>random_seed := - 1\<rparr>" and runid = 0
        and en = ?en and mdl = ?m and s = "ex_before_run (?a\<lparr>random_seed := - 1\<rparr>) 0"]
    by simp
  have c4: "\<exists>sb. begin_run ?en ?a ?m 1 (ex_before_run ?a 1) = Inr (sb, [ex_task, ex_task, ex_task])
           \<and> trace sb = trace (ex_before_run ?a 1)
                 @ [RandomSeed 2, ConstructPermuteMnist 3, GlobalVariablesInitializer, InitUpdates]
           \<and> rng sb = (\<lambda>n. 2 + n)"
    using reseed_determines_memory [where a = ?a and runid = 1 and en = ?en and mdl = ?m
        and s = "ex_before_run ?a 1"]
    by (simp add: sd nt ds g)
  from c1 c2 c3 c4 show ?thesis by (intro conjI)
qed

text \<open>
  C5 as stated fails for the accuracy matrices: the graph is seeded with the base seed
  alone, once per execution. Two executions of \<open>main\<close> with two runs each, one with base
  seed 1 and one with base seed 2, both complete. Run 1 of the first (the second matrix)
  and run 0 of the second (the first matrix) have the same sum and the same configuration
  otherwise, and with a model that depends on the seed of the graph their accuracy
  matrices differ. The claim also fails for a sum outside \<open>[0, 2**32 - 1]\<close>: with base
  seed -1 the generator is not reseeded, \<open>main\<close> ends with ValueError at the first
  \<open>np.random.seed\<close>.
\<close>

theorem equal_seed_sum_accuracy_differs:
  "random_seed ex_two_run_args + int 1 = random_seed (ex_two_run_args\<lparr>random_seed := 2\<rparr>) + int 0
   \<and> runs (final (main ex_seeded_env ex_two_run_args)) =
       [[Final [1, 1, 1], Final [1, 1, 1], Final [1, 1, 1]],
        [Final [1, 1, 1], Final [1, 1, 1], Final [1, 1, 1]]]
   \<and> runs (final (main ex_seeded_env (ex_two_run_args\<lparr>random_seed := 2\<rparr>))) =
       [[Final [0, 0, 0], Final [0, 0, 0], Final [0, 0, 0]],
        [Final [0, 0, 0], Final [0, 0, 0], Final [0, 0, 0]]]
   \<and> isl (main ex_seeded_env (ex_two_run_args\<lparr>random_seed := - 1\<rparr>))
   \<and> trace (final (main ex_seeded_env (ex_two_run_args\<lparr>random_seed := - 1\<rparr>))) =
       [SnapshotExperimentMetaData, ResetDefaultGraph, SetRandomSeed (- 1),
        BuildOptimizer ''SGD'', BuildModel ''ER-Ring'' 3 ''FC-S'', RandomSeed (- 1)]"
  by code_simp

end
